theory Spec2Isabelle
  imports Complex_Main "HOL-Library.Sublist"
begin

section \<open>Python values shared by the request handlers\<close>

text \<open>
  Every exception the handlers of \<open>app.py\<close> and the functions of
  \<open>plant_disease_detector.py\<close> can meet. All of them are subclasses of Python's
  \<open>Exception\<close>, so a clause \<open>except Exception as e\<close> catches each one. That
  includes \<open>NotFound\<close>, the \<open>werkzeug\<close> exception that \<open>abort(404)\<close> (and with it
  \<open>get_or_404\<close>) raises: \<open>NotFound < HTTPException < Exception\<close>, and
  \<open>RequestEntityTooLarge\<close>, which \<open>werkzeug\<close> raises when the form data of a
  request larger than \<open>MAX_CONTENT_LENGTH\<close> is read.
  \<open>External\<close> stands for whatever code outside the two source files raises (the
  generative-AI service, torch, PIL, the database driver, the file system).
\<close>

datatype exn =
    NotFound
  | RequestEntityTooLarge
  | TypeError string
  | KeyError string
  | NameError string
  | IndexError string
  | ValueError string
  | External string

text \<open>\<open>str(e)\<close>. The message texts carry no quotation marks here.\<close>

fun exn_str :: "exn \<Rightarrow> string" where
  "exn_str NotFound = ''404 Not Found: The requested URL was not found on the server. If you entered the URL manually please check your spelling and try again.''"
| "exn_str RequestEntityTooLarge = ''413 Request Entity Too Large: The data value transmitted exceeds the capacity limit.''"
| "exn_str (TypeError m) = m"
| "exn_str (KeyError m) = m"
| "exn_str (NameError m) = m"
| "exn_str (IndexError m) = m"
| "exn_str (ValueError m) = m"
| "exn_str (External m) = m"

text \<open>
  JSON values as Python reads them: \<open>None\<close>, \<open>bool\<close>, \<open>int\<close>, \<open>float\<close> (idealised
  as a real), \<open>str\<close>, \<open>list\<close> and \<open>dict\<close> (its items, keys distinct).
\<close>

datatype json =
    JNull
  | JBool bool
  | JInt int
  | JFloat real
  | JStr string
  | JArr "json list"
  | JObj "(string \<times> json) list"

text \<open>A view's return value \<open>jsonify(body), status\<close>.\<close>

type_synonym response = "json \<times> nat"

definition status :: "response \<Rightarrow> nat" where
  "status r = snd r"

definition body :: "response \<Rightarrow> json" where
  "body r = fst r"

text \<open>\<open>jsonify({'error': msg}), code\<close>\<close>

definition json_error :: "string \<Rightarrow> nat \<Rightarrow> response" where
  "json_error msg code = (JObj [(''error'', JStr msg)], code)"

text \<open>
  What a view hands to Flask: the response it returns, or the exception that leaves it.
  Flask answers an exception that leaves a view with the status of the HTTP exception
  (\<open>NotFound\<close> through the registered 404 handler, \<open>RequestEntityTooLarge\<close> as 413)
  and every other exception through the registered 500 handler.
\<close>

definition client_status :: "exn + response \<Rightarrow> nat" where
  "client_status v =
     (case v of
        Inr r \<Rightarrow> status r
      | Inl e \<Rightarrow>
          (case e of
             NotFound \<Rightarrow> 404
           | RequestEntityTooLarge \<Rightarrow> 413
           | _ \<Rightarrow> 500))"

text \<open>Truth value of a Python object, as \<open>not data\<close> tests it.\<close>

fun truthy :: "json \<Rightarrow> bool" where
  "truthy JNull = False"
| "truthy (JBool b) = b"
| "truthy (JInt n) = (n \<noteq> 0)"
| "truthy (JFloat x) = (x \<noteq> 0)"
| "truthy (JStr s) = (s \<noteq> [])"
| "truthy (JArr xs) = (xs \<noteq> [])"
| "truthy (JObj kvs) = (kvs \<noteq> [])"

text \<open>
  \<open>key in data\<close> for a string \<open>key\<close>: key membership in a dict, element membership
  in a list, substring test in a string, \<open>TypeError\<close> for a number, a boolean or \<open>None\<close>.
\<close>

fun py_contains :: "string \<Rightarrow> json \<Rightarrow> exn + bool" where
  "py_contains key (JObj kvs) = Inr (key \<in> set (map fst kvs))"
| "py_contains key (JArr xs) = Inr (JStr key \<in> set xs)"
| "py_contains key (JStr s) = Inr (sublist key s)"
| "py_contains key JNull = Inl (TypeError ''argument of type NoneType is not iterable'')"
| "py_contains key (JBool b) = Inl (TypeError ''argument of type bool is not iterable'')"
| "py_contains key (JInt n) = Inl (TypeError ''argument of type int is not iterable'')"
| "py_contains key (JFloat x) = Inl (TypeError ''argument of type float is not iterable'')"

text \<open>\<open>data[key]\<close> for a string \<open>key\<close>.\<close>

fun py_getitem :: "json \<Rightarrow> string \<Rightarrow> exn + json" where
  "py_getitem (JObj kvs) key =
     (case map_of kvs key of None \<Rightarrow> Inl (KeyError key) | Some v \<Rightarrow> Inr v)"
| "py_getitem (JArr xs) key = Inl (TypeError ''list indices must be integers or slices, not str'')"
| "py_getitem (JStr s) key = Inl (TypeError ''string indices must be integers, not str'')"
| "py_getitem JNull key = Inl (TypeError ''NoneType object is not subscriptable'')"
| "py_getitem (JBool b) key = Inl (TypeError ''bool object is not subscriptable'')"
| "py_getitem (JInt n) key = Inl (TypeError ''int object is not subscriptable'')"
| "py_getitem (JFloat x) key = Inl (TypeError ''float object is not subscriptable'')"

section \<open>Treatment advisor: \<open>get_cached_treatment\<close> and \<open>/api/get_treatment\<close>\<close>

text \<open>
  \<open>@lru_cache(maxsize=100)\<close>: the cache is the list of its entries, most recently used
  first. The key of a call with one positional argument is the argument itself for an
  exact \<open>str\<close> or \<open>int\<close>, and the argument tuple otherwise; a tuple holding a list or
  a dict cannot be hashed, and \<open>(True,)\<close> equals \<open>(1.0,)\<close>.
\<close>

definition maxsize :: nat where
  "maxsize = 100"

type_synonym lru = "(json \<times> string) list"

fun make_key :: "json \<Rightarrow> exn + json" where
  "make_key (JArr xs) = Inl (TypeError ''unhashable type: list'')"
| "make_key (JObj kvs) = Inl (TypeError ''unhashable type: dict'')"
| "make_key (JBool b) = Inr (JFloat (if b then 1 else 0))"
| "make_key v = Inr v"

text \<open>
  The state of the advisor: the cache, and the log of the calls made to
  \<open>get_treatment_recommendation\<close> (kept to count the invocations of the external
  service; the program itself holds no such log).
\<close>

record advisor =
  cache :: lru
  calls :: "json list"

text \<open>
  \<open>get_treatment_recommendation\<close> lives in \<open>gemini_service.py\<close>, outside the two
  source files: it is the parameter \<open>svc\<close>, which returns a text or raises.

  A hit returns the stored text and moves the entry to the front. A miss calls the
  service; when the service raises, the exception passes through and nothing is stored;
  when it returns, the text is stored at the front and the least recently used entry
  is dropped once the cache holds more than \<open>maxsize\<close> entries.
\<close>

definition get_cached_treatment ::
  "(json \<Rightarrow> exn + string) \<Rightarrow> json \<Rightarrow> advisor \<Rightarrow> (exn + string) \<times> advisor" where
  "get_cached_treatment svc disease_name st =
     (case make_key disease_name of
        Inl e \<Rightarrow> (Inl e, st)
      | Inr k \<Rightarrow>
          (case map_of (cache st) k of
             Some v \<Rightarrow> (Inr v, st\<lparr>cache := (k, v) # filter (\<lambda>kv. fst kv \<noteq> k) (cache st)\<rparr>)
           | None \<Rightarrow>
               (case svc disease_name of
                  Inl e \<Rightarrow> (Inl e, st\<lparr>calls := calls st @ [disease_name]\<rparr>)
                | Inr v \<Rightarrow>
                    (Inr v, st\<lparr>cache := take maxsize ((k, v) # cache st),
                               calls := calls st @ [disease_name]\<rparr>))))"

text \<open>
  The view \<open>get_treatment\<close>. \<open>request.json\<close> is the argument \<open>req_json\<close>: the parsed
  body, or the exception Flask raises for a body that is not JSON. The whole view is
  inside \<open>try ... except Exception\<close>, which answers 500 with \<open>str(e)\<close>.
\<close>

definition get_treatment ::
  "(json \<Rightarrow> exn + string) \<Rightarrow> exn + json \<Rightarrow> advisor \<Rightarrow> response \<times> advisor" where
  "get_treatment svc req_json st =
     (case req_json of
        Inl e \<Rightarrow> (json_error (exn_str e) 500, st)
      | Inr data \<Rightarrow>
          if \<not> truthy data then (json_error ''Disease name is required'' 400, st)
          else
            (case py_contains ''disease'' data of
               Inl e \<Rightarrow> (json_error (exn_str e) 500, st)
             | Inr False \<Rightarrow> (json_error ''Disease name is required'' 400, st)
             | Inr True \<Rightarrow>
                 (case py_getitem data ''disease'' of
                    Inl e \<Rightarrow> (json_error (exn_str e) 500, st)
                  | Inr disease_name \<Rightarrow>
                      (case get_cached_treatment svc disease_name st of
                         (Inl e, st') \<Rightarrow> (json_error (exn_str e) 500, st')
                       | (Inr treatment, st') \<Rightarrow>
                           ((JObj [(''treatment'', JStr treatment)], 200), st')))))"

text \<open>Concrete inputs for the treatment advisor.\<close>

definition failing_service :: "json \<Rightarrow> exn + string" where
  "failing_service d = Inl (External ''quota exceeded'')"

definition working_service :: "json \<Rightarrow> exn + string" where
  "working_service d = Inr ''Remove infected leaves and apply a fungicide.''"

definition treatment_request :: "exn + json" where
  "treatment_request = Inr (JObj [(''disease'', JStr ''Apple_Black_rot'')])"

definition empty_advisor :: advisor where
  "empty_advisor = \<lparr>cache = [], calls = []\<rparr>"

section \<open>Chat endpoint: \<open>/api/chat\<close>\<close>

text \<open>
  \<open>chat_with_gemini\<close> lives in \<open>gemini_service.py\<close>, outside the two source files:
  it is a parameter, which returns the reply text or raises. \<open>new_uuid\<close> is the value
  of \<open>str(uuid.uuid4())\<close> at this request.
\<close>

record chat_env =
  chat_with_gemini :: "json \<Rightarrow> json \<Rightarrow> exn + string"
  new_uuid :: string

text \<open>
  Flask's \<open>session\<close> (the signed cookie of the client) is a dict; the view returns it
  updated. The whole view is inside \<open>try ... except Exception\<close>.
\<close>

type_synonym flask_session = "string \<rightharpoonup> json"

definition handle_chat ::
  "chat_env \<Rightarrow> exn + json \<Rightarrow> flask_session \<Rightarrow> response \<times> flask_session" where
  "handle_chat env req_json session =
     (case req_json of
        Inl e \<Rightarrow> (json_error (exn_str e) 500, session)
      | Inr data \<Rightarrow>
          if \<not> truthy data then (json_error ''Message is required'' 400, session)
          else
            (case py_contains ''message'' data of
               Inl e \<Rightarrow> (json_error (exn_str e) 500, session)
             | Inr False \<Rightarrow> (json_error ''Message is required'' 400, session)
             | Inr True \<Rightarrow>
                 (case py_getitem data ''message'' of
                    Inl e \<Rightarrow> (json_error (exn_str e) 500, session)
                  | Inr user_message \<Rightarrow>
                      let session' =
                            (case session ''session_id'' of
                               None \<Rightarrow> session(''session_id'' \<mapsto> JStr (new_uuid env))
                             | Some v \<Rightarrow> session);
                          cookie_id =
                            (case session ''session_id'' of
                               None \<Rightarrow> JStr (new_uuid env)
                             | Some v \<Rightarrow> v)
                      in
                        (case py_contains ''session_id'' data of
                           Inl e \<Rightarrow> (json_error (exn_str e) 500, session')
                         | Inr has_id \<Rightarrow>
                             (case (if has_id then py_getitem data ''session_id''
                                    else Inr cookie_id) of
                                Inl e \<Rightarrow> (json_error (exn_str e) 500, session')
                              | Inr session_id \<Rightarrow>
                                  (case chat_with_gemini env session_id user_message of
                                     Inl e \<Rightarrow> (json_error (exn_str e) 500, session')
                                   | Inr reply \<Rightarrow>
                                       ((JObj [(''response'', JStr reply),
                                               (''session_id'', session_id)], 200),
                                        session')))))))"

section \<open>Stored results: \<open>/history\<close>, \<open>/api/results\<close>, \<open>/api/result/<id>\<close>\<close>

text \<open>
  A row of \<open>PlantDiseaseResult\<close>, with the columns \<open>app.py\<close> writes and reads. The
  timestamp is a \<open>datetime\<close>, counted in microseconds.
\<close>

record PlantDiseaseResult =
  result_id :: nat
  image_path :: string
  prediction :: string
  confidence :: real
  timestamp :: int

text \<open>
  \<open>PlantDiseaseResult.query.order_by(PlantDiseaseResult.timestamp.desc()).limit(20).all()\<close>.
  The database orders rows of equal timestamp as it pleases; here they keep the order
  they have in the table.
\<close>

definition latest_results :: "PlantDiseaseResult list \<Rightarrow> PlantDiseaseResult list" where
  "latest_results table = take 20 (sort_key (\<lambda>r. - timestamp r) table)"

text \<open>What a page view returns: a rendered template with its results, or a redirect with a flashed message.\<close>

datatype page =
    Rendered string "PlantDiseaseResult list"
  | Redirected string string

definition shown :: "page \<Rightarrow> PlantDiseaseResult list" where
  "shown p = (case p of Rendered t rs \<Rightarrow> rs | Redirected t m \<Rightarrow> [])"

text \<open>
  In the three views, \<open>fault\<close> is the exception the database raises while the query
  runs, if it raises one.
\<close>

definition history :: "exn option \<Rightarrow> PlantDiseaseResult list \<Rightarrow> page" where
  "history fault table =
     (case fault of
        Some e \<Rightarrow> Redirected ''index'' ''Error loading history. Please try again later.''
      | None \<Rightarrow> Rendered ''history.html'' (latest_results table))"

text \<open>\<open>to_dict\<close> is a method of the model class in \<open>models.py\<close>, outside the two source files: a parameter.\<close>

definition get_results ::
  "(PlantDiseaseResult \<Rightarrow> json) \<Rightarrow> exn option \<Rightarrow> PlantDiseaseResult list \<Rightarrow> response" where
  "get_results to_dict fault table =
     (case fault of
        Some e \<Rightarrow> json_error (exn_str e) 500
      | None \<Rightarrow> (JArr (map to_dict (latest_results table)), 200))"

text \<open>
  \<open>PlantDiseaseResult.query.get_or_404(result_id)\<close>: the row with that primary key, or
  \<open>abort(404)\<close>, which raises \<open>NotFound\<close>.
\<close>

definition get_or_404 ::
  "exn option \<Rightarrow> PlantDiseaseResult list \<Rightarrow> nat \<Rightarrow> exn + PlantDiseaseResult" where
  "get_or_404 fault table ident =
     (case fault of
        Some e \<Rightarrow> Inl e
      | None \<Rightarrow>
          (case find (\<lambda>r. result_id r = ident) table of
             None \<Rightarrow> Inl NotFound
           | Some r \<Rightarrow> Inr r))"

text \<open>
  The view \<open>get_result\<close>. The route converter \<open><int:result_id>\<close> passes a natural
  number. The call of \<open>get_or_404\<close> stands inside \<open>try ... except Exception\<close>.
\<close>

definition get_result ::
  "(PlantDiseaseResult \<Rightarrow> json) \<Rightarrow> exn option \<Rightarrow> PlantDiseaseResult list \<Rightarrow> nat \<Rightarrow> response" where
  "get_result to_dict fault table ident =
     (case get_or_404 fault table ident of
        Inl e \<Rightarrow> json_error (exn_str e) 500
      | Inr r \<Rightarrow> (to_dict r, 200))"

section \<open>Disease detector: \<open>detect_disease\<close>\<close>

text \<open>\<open>str(n)\<close> for a natural number.\<close>

fun str_nat :: "nat \<Rightarrow> string" where
  "str_nat n =
     (if n < 10 then [''0123456789'' ! n]
      else str_nat (n div 10) @ [''0123456789'' ! (n mod 10)])"

declare str_nat.simps [simp del]

text \<open>\<open>torch.nn.functional.softmax(logits, dim=-1)\<close> on the row of one image, over the reals.\<close>

definition softmax :: "real list \<Rightarrow> real list" where
  "softmax logits = map (\<lambda>x. exp x / sum_list (map exp logits)) logits"

text \<open>Index of the first maximal element.\<close>

fun first_max :: "real list \<Rightarrow> nat" where
  "first_max [] = 0"
| "first_max (x # xs) = (if list_all (\<lambda>y. y \<le> x) xs then 0 else Suc (first_max xs))"

text \<open>\<open>torch.argmax(probabilities, dim=-1).item()\<close>: an empty class dimension cannot be reduced.\<close>

definition torch_argmax :: "real list \<Rightarrow> exn + nat" where
  "torch_argmax probabilities =
     (if probabilities = []
      then Inl (IndexError ''argmax(): Expected reduction dim -1 to have non-zero size.'')
      else Inr (first_max probabilities))"

text \<open>
  What the detector meets outside the source file, for the image at a path:
  whether \<open>load_model()\<close> raises, whether \<open>preprocess_image\<close> raises, the row
  \<open>outputs.logits[0]\<close> the model gives for the one image of the batch (or the exception
  of the forward pass), and the result of reading \<open>config.json\<close>: an exception, or the
  items of its \<open>id2label\<close> entry when it has one.
\<close>

record detector_env =
  load_model_result :: "exn option"
  preprocess_result :: "string \<Rightarrow> exn option"
  model_output :: "string \<Rightarrow> exn + real list"
  config_result :: "exn + (string \<times> string) list option"

text \<open>\<open>config.get("id2label", {})\<close>\<close>

definition config_id2label :: "(string \<times> string) list option \<Rightarrow> (string \<times> string) list" where
  "config_id2label config = (case config of None \<Rightarrow> [] | Some kvs \<Rightarrow> kvs)"

text \<open>\<open>id2label.get(str(top_prediction), f"Class_{top_prediction}")\<close>\<close>

definition class_name :: "(string \<times> string) list \<Rightarrow> nat \<Rightarrow> string" where
  "class_name id2label top_prediction =
     (case map_of id2label (str_nat top_prediction) of
        Some name \<Rightarrow> name
      | None \<Rightarrow> ''Class_'' @ str_nat top_prediction)"

text \<open>\<open>detect_disease\<close>: every exception is logged and raised again.\<close>

definition detect_disease :: "detector_env \<Rightarrow> string \<Rightarrow> exn + (string \<times> real)" where
  "detect_disease env path =
     (case load_model_result env of
        Some e \<Rightarrow> Inl e
      | None \<Rightarrow>
          (case preprocess_result env path of
             Some e \<Rightarrow> Inl e
           | None \<Rightarrow>
               (case model_output env path of
                  Inl e \<Rightarrow> Inl e
                | Inr logits \<Rightarrow>
                    let probabilities = softmax logits in
                      (case torch_argmax probabilities of
                         Inl e \<Rightarrow> Inl e
                       | Inr top_prediction \<Rightarrow>
                           let conf = probabilities ! top_prediction in
                             (case config_result env of
                                Inl e \<Rightarrow> Inl e
                              | Inr config \<Rightarrow>
                                  let id2label = config_id2label config
                                  in Inr (class_name id2label top_prediction, conf))))))"

text \<open>The class names listed in \<open>plant_disease_detector.py\<close>.\<close>

definition CLASSES :: "string list" where
  "CLASSES =
    [''Apple_Apple_scab'', ''Apple_Black_rot'', ''Apple_Cedar_apple_rust'', ''Apple_Healthy'',
     ''Background_without_leaves'', ''Blueberry_Healthy'', ''Cherry_Powdery_mildew'', ''Cherry_Healthy'',
     ''Corn_Cercospora_leaf_spot'', ''Corn_Common_rust'', ''Corn_Northern_Leaf_Blight'', ''Corn_Healthy'',
     ''Grape_Black_rot'', ''Grape_Esca'', ''Grape_Leaf_blight'', ''Grape_Healthy'',
     ''Orange_Haunglongbing'', ''Peach_Bacterial_spot'', ''Peach_Healthy'',
     ''Pepper_Bacterial_spot'', ''Pepper_Healthy'', ''Potato_Early_blight'', ''Potato_Late_blight'', ''Potato_Healthy'',
     ''Raspberry_Healthy'', ''Soybean_Healthy'', ''Squash_Powdery_mildew'',
     ''Strawberry_Leaf_scorch'', ''Strawberry_Healthy'', ''Tomato_Bacterial_spot'', ''Tomato_Early_blight'',
     ''Tomato_Late_blight'', ''Tomato_Leaf_Mold'', ''Tomato_Septoria_leaf_spot'',
     ''Tomato_Spider_mites'', ''Tomato_Target_Spot'', ''Tomato_Mosaic_virus'', ''Tomato_Yellow_Leaf_Curl_Virus'', ''Tomato_Healthy'']"

section \<open>Upload endpoint: \<open>allowed_file\<close> and \<open>/api/upload\<close>\<close>

definition ALLOWED_EXTENSIONS :: "string set" where
  "ALLOWED_EXTENSIONS = {''png'', ''jpg'', ''jpeg'', ''gif''}"

definition UPLOAD_FOLDER :: string where
  "UPLOAD_FOLDER = ''static/uploads''"

text \<open>
  \<open>str.lower()\<close>. A string is its UTF-8 bytes here, and only the ASCII capitals change;
  Python lowers other letters too, but no character outside ASCII lowers to one of the
  ASCII letters, so membership in \<open>ALLOWED_EXTENSIONS\<close> is the same.
\<close>

definition lower_char :: "char \<Rightarrow> char" where
  "lower_char c =
     (case map_of (zip ''ABCDEFGHIJKLMNOPQRSTUVWXYZ'' ''abcdefghijklmnopqrstuvwxyz'') c of
        Some l \<Rightarrow> l
      | None \<Rightarrow> c)"

definition lower :: "string \<Rightarrow> string" where
  "lower s = map lower_char s"

text \<open>\<open>filename.rsplit('.', 1)\<close> for a filename that holds a dot: the parts before and after the last dot.\<close>

definition rsplit_dot :: "string \<Rightarrow> string \<times> string" where
  "rsplit_dot filename =
     (rev (drop 1 (dropWhile (\<lambda>c. c \<noteq> CHR ''.'') (rev filename))),
      rev (takeWhile (\<lambda>c. c \<noteq> CHR ''.'') (rev filename)))"

definition allowed_file :: "string \<Rightarrow> bool" where
  "allowed_file filename =
     (CHR ''.'' \<in> set filename \<and> lower (snd (rsplit_dot filename)) \<in> ALLOWED_EXTENSIONS)"

text \<open>An uploaded file part (\<open>FileStorage\<close>): its filename and its bytes.\<close>

record FileStorage =
  filename :: string
  content :: string

text \<open>
  \<open>app.config["MAX_CONTENT_LENGTH"] = 16 * 1024 * 1024\<close>. An upload request is its
  content length and the file parts of its form. Reading \<open>request.files\<close> parses the
  form, and raises \<open>RequestEntityTooLarge\<close> when the content length is above the limit.
\<close>

definition MAX_CONTENT_LENGTH :: nat where
  "MAX_CONTENT_LENGTH = 16 * 1024 * 1024"

record upload_request =
  content_length :: nat
  form_files :: "string \<rightharpoonup> FileStorage"

definition request_files :: "upload_request \<Rightarrow> exn + (string \<rightharpoonup> FileStorage)" where
  "request_files rq =
     (if content_length rq > MAX_CONTENT_LENGTH then Inl RequestEntityTooLarge
      else Inr (form_files rq))"

text \<open>\<open>file.save(file_path)\<close> writes the file, or raises and may leave a partial file behind.\<close>

datatype save_outcome =
    Saved
  | SaveFailed exn "string option"

text \<open>
  What one upload meets outside the two source files: the library functions
  \<open>secure_filename\<close> and \<open>os.path.splitext(...)[1]\<close>, the value of
  \<open>uuid.uuid4()\<close>, the outcome of \<open>file.save\<close>, the detector's surroundings, the clock
  \<open>datetime.now()\<close>, the outcome of \<open>db.session.add(result); db.session.commit()\<close> (an
  exception with nothing stored, or the primary key the database gives the new row),
  the exception raised, if any, while the answer is built after the commit (\<open>result.id\<close>
  reads the row back from the database, then \<open>isoformat\<close> and \<open>jsonify\<close>), the text
  \<open>datetime.isoformat\<close> gives, and the exception \<open>os.remove\<close> raises, if any.
\<close>

record upload_env =
  secure_filename :: "string \<Rightarrow> string"
  splitext_ext :: "string \<Rightarrow> string"
  uuid4 :: string
  save_result :: save_outcome
  detector :: detector_env
  now :: int
  commit_result :: "exn + nat"
  answer_result :: "exn option"
  isoformat :: "int \<Rightarrow> string"
  remove_result :: "exn option"

text \<open>The upload directory (path to bytes) and the table of results.\<close>

record store =
  files :: "string \<rightharpoonup> string"
  rows :: "PlantDiseaseResult list"

text \<open>\<open>os.path.join(app.config['UPLOAD_FOLDER'], unique_filename)\<close>, with the POSIX separator.\<close>

definition upload_path :: "upload_env \<Rightarrow> FileStorage \<Rightarrow> string" where
  "upload_path env file =
     (let fname = secure_filename env (filename file);
          file_extension = splitext_ext env fname;
          unique_filename = uuid4 env @ file_extension
      in UPLOAD_FOLDER @ ''/'' @ unique_filename)"

text \<open>
  The \<open>except Exception\<close> clause of \<open>upload_image\<close>:
  \<open>if os.path.exists(file_path): os.remove(file_path)\<close>, then the answer 500 with
  \<open>str(e)\<close>. An exception of \<open>os.remove\<close> is raised inside the clause, so it leaves
  the view, with the file still in place.
\<close>

definition upload_failed ::
  "upload_env \<Rightarrow> exn \<Rightarrow> string \<Rightarrow> store \<Rightarrow> (exn + response) \<times> store" where
  "upload_failed env e file_path st =
     (if file_path \<in> dom (files st)
      then
        (case remove_result env of
           Some e' \<Rightarrow> (Inl e', st)
         | None \<Rightarrow>
             (Inr (json_error (exn_str e) 500), st\<lparr>files := (files st)(file_path := None)\<rparr>))
      else (Inr (json_error (exn_str e) 500), st))"

text \<open>
  The view \<open>upload_image\<close>. \<open>request.files\<close> and the three checks stand before the
  \<open>try\<close>: an exception there leaves the view. Everything from the filename on stands
  inside the \<open>try\<close>, also the building of the answer after the commit, when the row is
  already in the table.
\<close>

definition upload_image ::
  "upload_env \<Rightarrow> upload_request \<Rightarrow> store \<Rightarrow> (exn + response) \<times> store" where
  "upload_image env rq st =
     (case request_files rq of
        Inl e \<Rightarrow> (Inl e, st)
      | Inr parts \<Rightarrow>
     (case parts ''file'' of
        None \<Rightarrow> (Inr (json_error ''No file part'' 400), st)
      | Some file \<Rightarrow>
          if filename file = [] then (Inr (json_error ''No selected file'' 400), st)
          else if \<not> allowed_file (filename file)
          then (Inr (json_error ''File type not allowed'' 400), st)
          else
            let file_path = upload_path env file in
              (case save_result env of
                 SaveFailed e partial \<Rightarrow>
                   upload_failed env e file_path
                     (case partial of
                        None \<Rightarrow> st
                      | Some bytes \<Rightarrow> st\<lparr>files := (files st)(file_path \<mapsto> bytes)\<rparr>)
               | Saved \<Rightarrow>
                   let st1 = st\<lparr>files := (files st)(file_path \<mapsto> content file)\<rparr> in
                     (case detect_disease (detector env) file_path of
                        Inl e \<Rightarrow> upload_failed env e file_path st1
                      | Inr (pred, conf) \<Rightarrow>
                          (case commit_result env of
                             Inl e \<Rightarrow> upload_failed env e file_path st1
                           | Inr new_id \<Rightarrow>
                               let result = \<lparr>result_id = new_id, image_path = file_path,
                                             prediction = pred, confidence = conf,
                                             timestamp = now env\<rparr>;
                                   st2 = st1\<lparr>rows := rows st1 @ [result]\<rparr>
                               in
                                 (case answer_result env of
                                    Some e \<Rightarrow> upload_failed env e file_path st2
                                  | None \<Rightarrow>
                                      (Inr (JObj [(''id'', JInt (int new_id)),
                                                  (''image_path'', JStr file_path),
                                                  (''prediction'', JStr pred),
                                                  (''confidence'', JFloat conf),
                                                  (''timestamp'',
                                                   JStr (isoformat env (timestamp result)))],
                                            200),
                                       st2)))))))"

section \<open>Fallback heuristic: \<open>simple_disease_classifier\<close>\<close>

text \<open>
  The names bound at module level in \<open>plant_disease_detector.py\<close>: its imports
  (\<open>os\<close>, \<open>cv2\<close>, \<open>numpy as np\<close>, \<open>torch\<close>, \<open>json\<close>, \<open>logging\<close>, two classes of
  \<open>transformers\<close>, \<open>Image\<close> of PIL), its variables and its functions. The module never
  imports \<open>random\<close>.
\<close>

definition module_globals :: "string list" where
  "module_globals =
    [''os'', ''cv2'', ''np'', ''torch'', ''json'', ''logging'',
     ''AutoImageProcessor'', ''AutoModelForImageClassification'', ''Image'',
     ''logger'', ''MODEL_PATH'', ''processor'', ''model'',
     ''load_model'', ''preprocess_image'', ''detect_disease'',
     ''CLASSES'', ''DISEASE_INDICATORS'',
     ''extract_color_features'', ''extract_texture_features'',
     ''simple_disease_classifier'', ''load_sample_predictions'']"

text \<open>Reading a global name that is not bound raises \<open>NameError\<close>.\<close>

definition lookup_global :: "string list \<Rightarrow> string \<Rightarrow> exn + unit" where
  "lookup_global globals name =
     (if name \<in> set globals then Inr ()
      else Inl (NameError (''name '' @ name @ '' is not defined'')))"

text \<open>
  What the module \<open>random\<close> would hand out at one call of the classifier, were it
  bound: the value of \<open>random.random()\<close>, the position \<open>random.choice\<close> picks and the
  number \<open>random.randint\<close> draws.
\<close>

record rng =
  random_value :: real
  choice_position :: nat
  randint_value :: nat

text \<open>Indexing a one-dimensional numpy array with a natural number.\<close>

definition np_getitem :: "real list \<Rightarrow> nat \<Rightarrow> exn + real" where
  "np_getitem xs i =
     (if i < length xs then Inr (xs ! i)
      else Inl (IndexError ''index out of bounds''))"

text \<open>\<open>np.mean(xs) < c\<close>: the mean of an empty array is \<open>nan\<close>, which is below nothing.\<close>

definition np_mean_less :: "real list \<Rightarrow> real \<Rightarrow> bool" where
  "np_mean_less xs c = (xs \<noteq> [] \<and> sum_list xs / real (length xs) < c)"

definition healthy_indices :: "nat list" where
  "healthy_indices = [3, 5, 7, 11, 15, 18, 20, 23, 24, 25, 28, 38]"

text \<open>
  \<open>simple_disease_classifier\<close>, rule by rule in the order of the source. \<open>A and B\<close>
  evaluates \<open>B\<close> only when \<open>A\<close> holds. \<open>globals\<close> is the module's namespace.
\<close>

definition simple_disease_classifier :: "string list \<Rightarrow> rng \<Rightarrow> real list \<Rightarrow> exn + nat" where
  "simple_disease_classifier globals r features =
     (let color_features = take 8 features;
          texture_features = drop 8 features
      in
        (case np_getitem color_features 0 of
           Inl e \<Rightarrow> Inl e
         | Inr c0 \<Rightarrow>
        (case (if c0 > 0.15
               then (case np_getitem texture_features 1 of
                       Inl e \<Rightarrow> Inl e
                     | Inr t1 \<Rightarrow> Inr (t1 > 0.2))
               else Inr False) of
           Inl e \<Rightarrow> Inl e
         | Inr True \<Rightarrow>
             (case lookup_global globals ''random'' of
                Inl e \<Rightarrow> Inl e
              | Inr u \<Rightarrow> Inr (if random_value r > 0.5 then 1 else 0))
         | Inr False \<Rightarrow>
        (case np_getitem color_features 1 of
           Inl e \<Rightarrow> Inl e
         | Inr c1 \<Rightarrow>
        if c1 > 0.2 then Inr 30
        else
        (case np_getitem color_features 3 of
           Inl e \<Rightarrow> Inl e
         | Inr c3 \<Rightarrow>
        if c3 > 0.1 then Inr 6
        else
        (case np_getitem color_features 2 of
           Inl e \<Rightarrow> Inl e
         | Inr c2 \<Rightarrow>
        if c2 > 0.12 then Inr 31
        else
        (case (if np_mean_less (take 5 color_features) 0.1
               then (case np_getitem color_features 5 of
                       Inl e \<Rightarrow> Inl e
                     | Inr c5 \<Rightarrow> Inr (c5 > 0.4))
               else Inr False) of
           Inl e \<Rightarrow> Inl e
         | Inr True \<Rightarrow>
             (case lookup_global globals ''random'' of
                Inl e \<Rightarrow> Inl e
              | Inr u \<Rightarrow>
                  Inr (healthy_indices ! (choice_position r mod length healthy_indices)))
         | Inr False \<Rightarrow>
             (case lookup_global globals ''random'' of
                Inl e \<Rightarrow> Inl e
              | Inr u \<Rightarrow> Inr (randint_value r mod length CLASSES)))))))))"

section \<open>Concrete inputs\<close>

text \<open>Environments, requests and stores on which the properties below are evaluated.\<close>

definition failing_chat :: chat_env where
  "failing_chat = \<lparr>chat_with_gemini = (\<lambda>sid msg. Inl (External ''service unavailable'')),
                    new_uuid = ''3f2b8c1e-0d4a-4e7b-9c55-6a1d2e8f7b90''\<rparr>"

definition echo_chat :: chat_env where
  "echo_chat = \<lparr>chat_with_gemini = (\<lambda>sid msg. Inr ''Water the plant less often.''),
                 new_uuid = ''3f2b8c1e-0d4a-4e7b-9c55-6a1d2e8f7b90''\<rparr>"

definition chat_message :: "exn + json" where
  "chat_message = Inr (JObj [(''message'', JStr ''What is wrong with my tomato?'')])"

definition chat_message_with_id :: "exn + json" where
  "chat_message_with_id =
     Inr (JObj [(''message'', JStr ''And how do I treat it?''), (''session_id'', JStr ''abc'')])"

definition no_cookie :: flask_session where
  "no_cookie = Map.empty"

text \<open>A list of timestamps in descending order, equal neighbours allowed or not.\<close>

definition descending :: "int list \<Rightarrow> bool" where
  "descending ts = sorted_wrt (\<lambda>a b. b \<le> a) ts"

definition strictly_descending :: "int list \<Rightarrow> bool" where
  "strictly_descending ts = sorted_wrt (\<lambda>a b. b < a) ts"

definition row :: "nat \<Rightarrow> int \<Rightarrow> PlantDiseaseResult" where
  "row n t = \<lparr>result_id = n, image_path = ''static/uploads/leaf.png'',
              prediction = ''Tomato_Late_blight'', confidence = 0.9, timestamp = t\<rparr>"

definition three_rows :: "PlantDiseaseResult list" where
  "three_rows = [row 1 100, row 2 300, row 3 200]"

definition same_time_rows :: "PlantDiseaseResult list" where
  "same_time_rows = [row 1 500, row 2 500]"

text \<open>
  Feature vectors (eight colour features, three texture features): one that meets the
  first rule, one that meets no rule, and one that is mostly green.
\<close>

definition brown_and_rough :: "real list" where
  "brown_and_rough = [0.2, 0, 0, 0, 0, 0.3, 0.5, 0.5, 0.1, 0.3, 0.4]"

definition bland :: "real list" where
  "bland = [0.05, 0.05, 0.05, 0.05, 0.3, 0.3, 0.5, 0.5, 0.1, 0.1, 0.4]"

definition mostly_green :: "real list" where
  "mostly_green = [0.01, 0.01, 0.01, 0.01, 0.01, 0.5, 0.5, 0.5, 0.1, 0.1, 0.4]"

definition labelled_detector :: detector_env where
  "labelled_detector =
     \<lparr>load_model_result = None,
      preprocess_result = (\<lambda>path. None),
      model_output = (\<lambda>path. Inr [0, 1]),
      config_result = Inr (Some [(''0'', ''Apple_Apple_scab''), (''1'', ''Apple_Black_rot'')])\<rparr>"

definition unlabelled_detector :: detector_env where
  "unlabelled_detector =
     \<lparr>load_model_result = None,
      preprocess_result = (\<lambda>path. None),
      model_output = (\<lambda>path. Inr [0, 1]),
      config_result = Inr None\<rparr>"

definition failing_detector :: detector_env where
  "failing_detector =
     \<lparr>load_model_result = Some (External ''model not found''),
      preprocess_result = (\<lambda>path. None),
      model_output = (\<lambda>path. Inr [0, 1]),
      config_result = Inr None\<rparr>"

definition upload_env_of :: "detector_env \<Rightarrow> exn + nat \<Rightarrow> upload_env" where
  "upload_env_of d c =
     \<lparr>secure_filename = (\<lambda>name. name),
      splitext_ext = (\<lambda>name. ''.PNG''),
      uuid4 = ''6fa459ea-ee8a-3ca4-894e-db77e160355e'',
      save_result = Saved,
      detector = d,
      now = 1700000000000000,
      commit_result = c,
      answer_result = None,
      isoformat = (\<lambda>t. ''2023-11-14T22:13:20''),
      remove_result = None\<rparr>"

definition stuck_file_env :: upload_env where
  "stuck_file_env =
     (upload_env_of failing_detector (Inr 4))\<lparr>remove_result := Some (External ''permission denied'')\<rparr>"

definition lost_answer_env :: upload_env where
  "lost_answer_env =
     (upload_env_of labelled_detector (Inr 4))\<lparr>answer_result := Some (External ''connection lost'')\<rparr>"

definition leaf_file :: FileStorage where
  "leaf_file = \<lparr>filename = ''leaf.PNG'', content = ''image bytes''\<rparr>"

definition leaf_path :: string where
  "leaf_path = ''static/uploads/6fa459ea-ee8a-3ca4-894e-db77e160355e.PNG''"

definition leaf_request :: upload_request where
  "leaf_request = \<lparr>content_length = 2048, form_files = [''file'' \<mapsto> leaf_file]\<rparr>"






definition empty_store :: store where
  "empty_store = \<lparr>files = Map.empty, rows = []\<rparr>"

section \<open>Properties of the treatment advisor\<close>

lemma get_treatment_label:
  assumes "map_of kvs ''disease'' = Some d"
  shows "get_treatment svc (Inr (JObj kvs)) st =
     (case get_cached_treatment svc d st of
        (Inl e, st') \<Rightarrow> (json_error (exn_str e) 500, st')
      | (Inr treatment, st') \<Rightarrow> ((JObj [(''treatment'', JStr treatment)], 200), st'))"
proof -
  from assms have "kvs \<noteq> []" by auto
  moreover from assms have "''disease'' \<in> fst ` set kvs"
    by (metis map_of_eq_None_iff option.distinct(1))
  ultimately show ?thesis using assms
    by (simp add: get_treatment_def)
qed

lemma cached_miss_raises:
  assumes "map_of (cache st) (JStr label) = None" and "svc (JStr label) = Inl e"
  shows "get_cached_treatment svc (JStr label) st = (Inl e, st\<lparr>calls := calls st @ [JStr label]\<rparr>)"
  using assms by (simp add: get_cached_treatment_def)

lemma cached_miss_returns:
  assumes "map_of (cache st) (JStr label) = None" and "svc (JStr label) = Inr t"
  shows "get_cached_treatment svc (JStr label) st =
    (Inr t, st\<lparr>cache := take maxsize ((JStr label, t) # cache st), calls := calls st @ [JStr label]\<rparr>)"
  using assms by (simp add: get_cached_treatment_def)

lemma cached_hit:
  assumes "map_of (cache st) (JStr label) = Some t"
  shows "get_cached_treatment svc (JStr label) st =
    (Inr t, st\<lparr>cache := (JStr label, t) # filter (\<lambda>kv. fst kv \<noteq> JStr label) (cache st)\<rparr>)"
  using assms by (simp add: get_cached_treatment_def)

lemma cached_entries:
  assumes "(k, v) \<in> set (cache (snd (get_cached_treatment svc d st)))"
  shows "(k, v) \<in> set (cache st) \<or> (make_key d = Inr k \<and> svc d = Inr v)"
  using assms
  by (auto simp: get_cached_treatment_def maxsize_def split: sum.splits option.splits if_splits
      dest: map_of_SomeD in_set_takeD)

lemma treatment_entries:
  assumes "(k, v) \<in> set (cache (snd (get_treatment svc rq st)))"
  shows "(k, v) \<in> set (cache st) \<or> (\<exists>d. make_key d = Inr k \<and> svc d = Inr v)"
proof (cases "\<exists>d. snd (get_treatment svc rq st) = snd (get_cached_treatment svc d st)")
  case True
  then obtain d where "snd (get_treatment svc rq st) = snd (get_cached_treatment svc d st)" ..
  with assms cached_entries [of k v svc d st] show ?thesis by auto
next
  case False
  then have "snd (get_treatment svc rq st) = st"
    by (auto simp: get_treatment_def split: sum.splits bool.splits prod.splits)
      (metis snd_conv)+
  with assms show ?thesis by simp
qed

text \<open>
  Claim C10. Failures of the external treatment service are never cached. When the
  request names a label that is not in the cache and \<open>get_treatment_recommendation\<close>
  raises for it, \<open>POST /api/get_treatment\<close> answers 500 with \<open>str(e)\<close>, the cache is
  what it was, and the same request sent again calls the service again (the call log
  grows by the label twice). Whatever the request, every entry of the cache afterwards
  was there before or is a text the service returned at this request.
\<close>

theorem failures_are_not_cached:
  assumes "map_of kvs ''disease'' = Some (JStr label)"
    and "map_of (cache st) (JStr label) = None"
    and "svc (JStr label) = Inl e"
  shows "get_treatment svc (Inr (JObj kvs)) st =
           (json_error (exn_str e) 500, st\<lparr>calls := calls st @ [JStr label]\<rparr>)
       \<and> status (fst (get_treatment svc (Inr (JObj kvs)) st)) = 500
       \<and> cache (snd (get_treatment svc (Inr (JObj kvs)) st)) = cache st
       \<and> calls (snd (get_treatment again (Inr (JObj kvs))
                  (snd (get_treatment svc (Inr (JObj kvs)) st))))
           = calls st @ [JStr label, JStr label]
       \<and> (\<forall>any rq st' k v.
            (k, v) \<in> set (cache (snd (get_treatment any rq st'))) \<longrightarrow>
            (k, v) \<in> set (cache st') \<or> (\<exists>d. make_key d = Inr k \<and> any d = Inr v))"
proof -
  let ?rq = "Inr (JObj kvs) :: exn + json"
  let ?st1 = "st\<lparr>calls := calls st @ [JStr label]\<rparr>"
  have first: "get_treatment svc ?rq st = (json_error (exn_str e) 500, ?st1)"
    using assms by (simp add: get_treatment_label cached_miss_raises)
  have miss1: "map_of (cache ?st1) (JStr label) = None"
    using assms(2) by simp
  have second: "calls (snd (get_treatment again ?rq ?st1)) = calls st @ [JStr label, JStr label]"
  proof (cases "again (JStr label)")
    case (Inl e')
    with miss1 assms(1) show ?thesis
      by (simp add: get_treatment_label cached_miss_raises)
  next
    case (Inr t)
    with miss1 assms(1) show ?thesis
      by (simp add: get_treatment_label cached_miss_returns)
  qed
  from first second show ?thesis
    by (simp add: status_def json_error_def) (blast dest: treatment_entries)
qed

theorem failures_are_not_cached_witness:
  "get_treatment failing_service treatment_request empty_advisor =
      (json_error ''quota exceeded'' 500, \<lparr>cache = [], calls = [JStr ''Apple_Black_rot'']\<rparr>)
   \<and> calls (snd (get_treatment working_service treatment_request
        (snd (get_treatment failing_service treatment_request empty_advisor))))
      = [JStr ''Apple_Black_rot'', JStr ''Apple_Black_rot'']"
proof -
  have a: "map_of [(''disease'', JStr ''Apple_Black_rot'')] ''disease'' = Some (JStr ''Apple_Black_rot'')"
    by simp
  have b: "map_of (cache empty_advisor) (JStr ''Apple_Black_rot'') = None"
    by (simp add: empty_advisor_def)
  have c: "failing_service (JStr ''Apple_Black_rot'') = Inl (External ''quota exceeded'')"
    by (simp add: failing_service_def)
  note w = failures_are_not_cached [of "[(''disease'', JStr ''Apple_Black_rot'')]" "''Apple_Black_rot''"
      empty_advisor failing_service "External ''quota exceeded''" working_service, OF a b c]
  from w have "get_treatment failing_service (Inr (JObj [(''disease'', JStr ''Apple_Black_rot'')])) empty_advisor =
      (json_error (exn_str (External ''quota exceeded'')) 500,
       empty_advisor\<lparr>calls := calls empty_advisor @ [JStr ''Apple_Black_rot'']\<rparr>)"
    by (rule conjunct1)
  moreover from w have "calls (snd (get_treatment working_service (Inr (JObj [(''disease'', JStr ''Apple_Black_rot'')]))
        (snd (get_treatment failing_service (Inr (JObj [(''disease'', JStr ''Apple_Black_rot'')])) empty_advisor))))
      = calls empty_advisor @ [JStr ''Apple_Black_rot'', JStr ''Apple_Black_rot'']"
    by blast
  ultimately show ?thesis
    by (simp add: treatment_request_def empty_advisor_def)
qed

lemma treatment_hit:
  assumes "map_of kvs ''disease'' = Some (JStr label)"
    and "map_of (cache st) (JStr label) = Some t"
  shows "get_treatment svc (Inr (JObj kvs)) st =
    ((JObj [(''treatment'', JStr t)], 200),
     st\<lparr>cache := (JStr label, t) # filter (\<lambda>kv. fst kv \<noteq> JStr label) (cache st)\<rparr>)"
  using assms by (simp add: get_treatment_label cached_hit)

lemma treatment_miss_returns:
  assumes "map_of kvs ''disease'' = Some (JStr label)"
    and "map_of (cache st) (JStr label) = None"
    and "svc (JStr label) = Inr t"
  shows "get_treatment svc (Inr (JObj kvs)) st =
    ((JObj [(''treatment'', JStr t)], 200),
     st\<lparr>cache := take maxsize ((JStr label, t) # cache st), calls := calls st @ [JStr label]\<rparr>)"
  using assms by (simp add: get_treatment_label cached_miss_returns)

text \<open>
  Claim C6, as amended. Take a request for a label whose first lookup either hits the
  cache or misses it with the external service returning a text. Then the request and
  its immediate repetition answer 200 with the same treatment text, the repetition is
  served from the cache (it adds no call to the log, whatever the service would do),
  and the first request calls the service at most once.
\<close>

theorem repeated_request_served_from_cache:
  assumes "map_of kvs ''disease'' = Some (JStr label)"
    and "map_of (cache st) (JStr label) = None \<Longrightarrow> \<exists>t. svc (JStr label) = Inr t"
  shows "\<exists>t st1 st2.
      get_treatment svc (Inr (JObj kvs)) st = ((JObj [(''treatment'', JStr t)], 200), st1)
    \<and> get_treatment again (Inr (JObj kvs)) st1 = ((JObj [(''treatment'', JStr t)], 200), st2)
    \<and> calls st2 = calls st1
    \<and> (calls st1 = calls st \<or> calls st1 = calls st @ [JStr label])"
proof (cases "map_of (cache st) (JStr label)")
  case (Some t)
  let ?st1 = "st\<lparr>cache := (JStr label, t) # filter (\<lambda>kv. fst kv \<noteq> JStr label) (cache st)\<rparr>"
  let ?st2 = "?st1\<lparr>cache := (JStr label, t) # filter (\<lambda>kv. fst kv \<noteq> JStr label) (cache ?st1)\<rparr>"
  have "get_treatment svc (Inr (JObj kvs)) st = ((JObj [(''treatment'', JStr t)], 200), ?st1)"
    using assms(1) Some by (rule treatment_hit)
  moreover have "map_of (cache ?st1) (JStr label) = Some t" by simp
  then have "get_treatment again (Inr (JObj kvs)) ?st1 = ((JObj [(''treatment'', JStr t)], 200), ?st2)"
    using assms(1) by (rule treatment_hit [rotated])
  moreover have "calls ?st2 = calls ?st1" and "calls ?st1 = calls st" by simp_all
  ultimately show ?thesis by blast
next
  case None
  with assms(2) obtain t where t: "svc (JStr label) = Inr t" by blast
  let ?st1 = "st\<lparr>cache := take maxsize ((JStr label, t) # cache st), calls := calls st @ [JStr label]\<rparr>"
  let ?st2 = "?st1\<lparr>cache := (JStr label, t) # filter (\<lambda>kv. fst kv \<noteq> JStr label) (cache ?st1)\<rparr>"
  have "get_treatment svc (Inr (JObj kvs)) st = ((JObj [(''treatment'', JStr t)], 200), ?st1)"
    using assms(1) None t by (rule treatment_miss_returns)
  moreover have "map_of (cache ?st1) (JStr label) = Some t" by (simp add: maxsize_def)
  then have "get_treatment again (Inr (JObj kvs)) ?st1 = ((JObj [(''treatment'', JStr t)], 200), ?st2)"
    using assms(1) by (rule treatment_hit [rotated])
  moreover have "calls ?st2 = calls ?st1" and "calls ?st1 = calls st @ [JStr label]" by simp_all
  ultimately show ?thesis by blast
qed

theorem repeated_request_served_from_cache_witness:
  "\<exists>t st1 st2.
      get_treatment working_service treatment_request empty_advisor = ((JObj [(''treatment'', JStr t)], 200), st1)
    \<and> get_treatment failing_service treatment_request st1 = ((JObj [(''treatment'', JStr t)], 200), st2)
    \<and> calls st2 = calls st1
    \<and> (calls st1 = calls empty_advisor \<or> calls st1 = calls empty_advisor @ [JStr ''Apple_Black_rot''])"
proof -
  have a: "map_of [(''disease'', JStr ''Apple_Black_rot'')] ''disease'' = Some (JStr ''Apple_Black_rot'')"
    by simp
  have b: "\<exists>t. working_service (JStr ''Apple_Black_rot'') = Inr t"
    by (simp add: working_service_def)
  show ?thesis
    unfolding treatment_request_def
    by (rule repeated_request_served_from_cache [of "[(''disease'', JStr ''Apple_Black_rot'')]"
          "''Apple_Black_rot''" empty_advisor working_service failing_service, OF a b])
qed

text \<open>
  Claim C6 as stated fails when the service raises at the first request: nothing is
  cached, the two answers differ (500 with the error, then 200 with a text) and the
  service is called twice.
\<close>

theorem failed_request_is_repeated:
  "fst (get_treatment failing_service treatment_request empty_advisor)
     = (JObj [(''error'', JStr ''quota exceeded'')], 500)
   \<and> fst (get_treatment working_service treatment_request
        (snd (get_treatment failing_service treatment_request empty_advisor)))
     = (JObj [(''treatment'', JStr ''Remove infected leaves and apply a fungicide.'')], 200)
   \<and> length (calls (snd (get_treatment working_service treatment_request
        (snd (get_treatment failing_service treatment_request empty_advisor))))) = 2"
  by (simp add: get_treatment_def get_cached_treatment_def treatment_request_def empty_advisor_def
      failing_service_def working_service_def json_error_def maxsize_def)

lemma cache_stays_bounded:
  assumes "length (cache st) \<le> maxsize"
  shows "length (cache (snd (get_treatment svc rq st))) \<le> maxsize"
proof -
  have hit: "length (filter (\<lambda>kv. fst kv \<noteq> k) xs) < length xs" if "map_of xs k = Some v"
    for k :: json and v :: string and xs
  proof -
    from that have "(k, v) \<in> set xs" by (rule map_of_SomeD)
    then show ?thesis by (rule length_filter_less) simp
  qed
  show ?thesis using assms
    by (auto simp: get_treatment_def get_cached_treatment_def maxsize_def
        split: sum.splits bool.splits option.splits dest!: hit)
qed

section \<open>Properties of the chat endpoint\<close>

lemma contains_obj:
  "py_contains key (JObj kvs) = Inr (map_of kvs key \<noteq> None)"
  by (simp add: map_of_eq_None_iff)

lemma chat_without_message:
  assumes "map_of kvs ''message'' = None"
  shows "handle_chat env (Inr (JObj kvs)) session = (json_error ''Message is required'' 400, session)"
  using assms by (simp add: handle_chat_def contains_obj del: py_contains.simps)

lemma chat_with_message:
  assumes "map_of kvs ''message'' = Some m"
  shows "handle_chat env (Inr (JObj kvs)) session =
    (let cookie_id = (case session ''session_id'' of None \<Rightarrow> JStr (new_uuid env) | Some c \<Rightarrow> c);
         sid = (case map_of kvs ''session_id'' of None \<Rightarrow> cookie_id | Some s \<Rightarrow> s)
     in (case chat_with_gemini env sid m of
           Inl e \<Rightarrow> json_error (exn_str e) 500
         | Inr reply \<Rightarrow> (JObj [(''response'', JStr reply), (''session_id'', sid)], 200),
         session(''session_id'' \<mapsto> cookie_id)))"
proof -
  from assms have ne: "kvs \<noteq> []" by auto
  show ?thesis
  proof (cases "session ''session_id''")
    case None
    with assms ne show ?thesis
      by (cases "map_of kvs ''session_id''")
        (simp_all add: handle_chat_def contains_obj Let_def del: py_contains.simps split: sum.splits)
  next
    case (Some c)
    then have "session(''session_id'' \<mapsto> c) = session" by (simp add: fun_upd_idem_iff)
    with Some assms ne show ?thesis
      by (cases "map_of kvs ''session_id''")
        (simp_all add: handle_chat_def contains_obj Let_def del: py_contains.simps split: sum.splits)
  qed
qed

text \<open>
  Claim C8, as amended. For a \<open>POST /api/chat\<close> whose JSON body is an object: without
  a \<open>message\<close> field the answer is 400. With one, the session id is the body's
  \<open>session_id\<close> when it has one (taken as it is), and otherwise the id of the cookie
  session, which the server generates when the cookie has none; the cookie session holds
  the server's id afterwards. When the chat service returns a reply, the answer is 200
  with exactly the fields \<open>response\<close> and \<open>session_id\<close>; when it raises, the answer
  is 500 with an \<open>error\<close> field.
\<close>

theorem chat_reply_and_session_id:
  "(map_of kvs ''message'' = None \<longrightarrow>
      status (fst (handle_chat env (Inr (JObj kvs)) session)) = 400)
   \<and> (\<forall>m cookie_id sid.
        map_of kvs ''message'' = Some m \<and>
        cookie_id = (case session ''session_id'' of None \<Rightarrow> JStr (new_uuid env) | Some c \<Rightarrow> c) \<and>
        sid = (case map_of kvs ''session_id'' of None \<Rightarrow> cookie_id | Some s \<Rightarrow> s) \<longrightarrow>
        (\<forall>reply. chat_with_gemini env sid m = Inr reply \<longrightarrow>
           fst (handle_chat env (Inr (JObj kvs)) session) =
             (JObj [(''response'', JStr reply), (''session_id'', sid)], 200))
        \<and> (\<forall>e. chat_with_gemini env sid m = Inl e \<longrightarrow>
           fst (handle_chat env (Inr (JObj kvs)) session) =
             (JObj [(''error'', JStr (exn_str e))], 500))
        \<and> snd (handle_chat env (Inr (JObj kvs)) session) ''session_id'' = Some cookie_id)"
  by (simp add: chat_without_message chat_with_message status_def json_error_def Let_def)

theorem chat_reply_and_session_id_witness:
  "status (fst (handle_chat echo_chat (Inr (JObj [])) no_cookie)) = 400
   \<and> fst (handle_chat echo_chat chat_message no_cookie) =
       (JObj [(''response'', JStr ''Water the plant less often.''),
              (''session_id'', JStr ''3f2b8c1e-0d4a-4e7b-9c55-6a1d2e8f7b90'')], 200)
   \<and> snd (handle_chat echo_chat chat_message no_cookie) ''session_id'' =
       Some (JStr ''3f2b8c1e-0d4a-4e7b-9c55-6a1d2e8f7b90'')
   \<and> fst (handle_chat echo_chat chat_message_with_id no_cookie) =
       (JObj [(''response'', JStr ''Water the plant less often.''), (''session_id'', JStr ''abc'')], 200)
   \<and> fst (handle_chat failing_chat chat_message no_cookie) =
       (JObj [(''error'', JStr ''service unavailable'')], 500)"
proof -
  have "status (fst (handle_chat echo_chat (Inr (JObj [])) no_cookie)) = 400"
    using chat_reply_and_session_id [of "[]" echo_chat no_cookie] by simp
  moreover have "fst (handle_chat echo_chat chat_message no_cookie) =
       (JObj [(''response'', JStr ''Water the plant less often.''),
              (''session_id'', JStr ''3f2b8c1e-0d4a-4e7b-9c55-6a1d2e8f7b90'')], 200)
     \<and> snd (handle_chat echo_chat chat_message no_cookie) ''session_id'' =
       Some (JStr ''3f2b8c1e-0d4a-4e7b-9c55-6a1d2e8f7b90'')"
    using chat_reply_and_session_id
      [of "[(''message'', JStr ''What is wrong with my tomato?'')]" echo_chat no_cookie]
    by (simp add: chat_message_def echo_chat_def no_cookie_def)
  moreover have "fst (handle_chat echo_chat chat_message_with_id no_cookie) =
       (JObj [(''response'', JStr ''Water the plant less often.''), (''session_id'', JStr ''abc'')], 200)"
    using chat_reply_and_session_id
      [of "[(''message'', JStr ''And how do I treat it?''), (''session_id'', JStr ''abc'')]"
          echo_chat no_cookie]
    by (simp add: chat_message_with_id_def echo_chat_def no_cookie_def)
  moreover have "fst (handle_chat failing_chat chat_message no_cookie) =
       (JObj [(''error'', JStr ''service unavailable'')], 500)"
    using chat_reply_and_session_id
      [of "[(''message'', JStr ''What is wrong with my tomato?'')]" failing_chat no_cookie]
    by (simp add: chat_message_def failing_chat_def no_cookie_def)
  ultimately show ?thesis by blast
qed

text \<open>
  Claim C8 as stated fails in two places: the JSON body \<open>5\<close> has no \<open>message\<close>
  field and is answered 500, not 400 (\<open>'message' not in 5\<close> raises \<open>TypeError\<close>), and
  a body with a message is answered 500 with an \<open>error\<close> field when the chat service
  raises.
\<close>

theorem chat_answers_500:
  "status (fst (handle_chat echo_chat (Inr (JInt 5)) no_cookie)) = 500
   \<and> py_getitem (JObj [(''message'', JStr ''What is wrong with my tomato?'')]) ''message''
       = Inr (JStr ''What is wrong with my tomato?'')
   \<and> fst (handle_chat failing_chat chat_message no_cookie) =
       (JObj [(''error'', JStr ''service unavailable'')], 500)"
  by (simp add: handle_chat_def chat_message_def failing_chat_def echo_chat_def no_cookie_def
      json_error_def status_def)

section \<open>Properties of the stored results and of the fallback heuristic\<close>

lemma sorted_desc: "sorted_wrt (\<lambda>a b. b \<le> a) (map timestamp (sort_key (\<lambda>r. - timestamp r) table))"
proof -
  have "sorted (map (\<lambda>r. - timestamp r) (sort_key (\<lambda>r. - timestamp r) table))"
    by (rule sorted_sort_key)
  then show ?thesis
    by (simp add: sorted_wrt_map)
qed

lemma latest_descending: "descending (map timestamp (latest_results table))"
  unfolding descending_def latest_results_def take_map [symmetric]
  by (rule sorted_wrt_take) (rule sorted_desc)

lemma latest_length: "length (latest_results table) \<le> 20"
  by (simp add: latest_results_def)

lemma latest_subset: "set (latest_results table) \<subseteq> set table"
proof -
  have "set (latest_results table) \<subseteq> set (sort_key (\<lambda>r. - timestamp r) table)"
    unfolding latest_results_def by (rule set_take_subset)
  then show ?thesis by simp
qed

lemma latest_newest:
  assumes "r \<in> set table" and "r \<notin> set (latest_results table)" and "s \<in> set (latest_results table)"
  shows "timestamp r \<le> timestamp s"
proof -
  let ?xs = "sort_key (\<lambda>r. - timestamp r) table"
  have "sorted_wrt (\<lambda>a b. timestamp b \<le> timestamp a) (take 20 ?xs @ drop 20 ?xs)"
    using sorted_desc [of table] by (simp add: sorted_wrt_map)
  then have *: "\<forall>x\<in>set (take 20 ?xs). \<forall>y\<in>set (drop 20 ?xs). timestamp y \<le> timestamp x"
    unfolding sorted_wrt_append by blast
  from assms(1) have "r \<in> set (take 20 ?xs @ drop 20 ?xs)" by simp
  with assms(2) have "r \<in> set (drop 20 ?xs)"
    unfolding latest_results_def set_append by blast
  with * assms(3) show ?thesis by (simp add: latest_results_def)
qed

text \<open>
  Claim C3, as amended. Whatever the table holds, \<open>/history\<close> and \<open>/api/results\<close>
  show at most 20 results in descending order of timestamp, equal timestamps allowed;
  they are rows of the table, and no row left out is newer than a row shown. When the
  query raises, \<open>/history\<close> shows nothing.
\<close>

theorem latest_results_descending:
  "length (shown (history fault table)) \<le> 20
   \<and> descending (map timestamp (shown (history fault table)))
   \<and> history None table = Rendered ''history.html'' (latest_results table)
   \<and> get_results to_dict None table = (JArr (map to_dict (latest_results table)), 200)
   \<and> length (latest_results table) \<le> 20
   \<and> descending (map timestamp (latest_results table))
   \<and> set (latest_results table) \<subseteq> set table
   \<and> (\<forall>r\<in>set table. r \<notin> set (latest_results table) \<longrightarrow>
        (\<forall>s\<in>set (latest_results table). timestamp r \<le> timestamp s))"
proof -
  have "shown (history fault table) = [] \<or> shown (history fault table) = latest_results table"
    by (cases fault) (simp_all add: history_def shown_def)
  then have "length (shown (history fault table)) \<le> 20
      \<and> descending (map timestamp (shown (history fault table)))"
    using latest_length [of table] latest_descending [of table]
    by (auto simp: descending_def)
  moreover have "history None table = Rendered ''history.html'' (latest_results table)"
    by (simp add: history_def)
  moreover have "get_results to_dict None table = (JArr (map to_dict (latest_results table)), 200)"
    by (simp add: get_results_def)
  ultimately show ?thesis
    using latest_length [of table] latest_descending [of table] latest_subset [of table]
      latest_newest [of _ table]
    by blast
qed

lemma latest_three: "latest_results three_rows = [row 2 300, row 3 200, row 1 100]"
  by (simp add: latest_results_def three_rows_def row_def sort_key_def)

theorem latest_results_descending_witness:
  "shown (history None three_rows) = [row 2 300, row 3 200, row 1 100]
   \<and> descending (map timestamp (shown (history None three_rows)))
   \<and> length (shown (history None three_rows)) \<le> 20"
proof -
  have "shown (history None three_rows) = [row 2 300, row 3 200, row 1 100]"
    by (simp add: history_def shown_def latest_three)
  with latest_results_descending [of None three_rows] show ?thesis
    by simp
qed

text \<open>
  Claim C3 as stated fails on a table with two rows of the same timestamp: both are
  shown, and the order is not strictly descending.
\<close>

theorem equal_timestamps_not_strict:
  "map timestamp (shown (history None same_time_rows)) = [500, 500]
   \<and> \<not> strictly_descending (map timestamp (shown (history None same_time_rows)))"
  by (simp add: history_def shown_def latest_results_def same_time_rows_def row_def sort_key_def
      strictly_descending_def)

lemma missing_result_answers_500:
  assumes "find (\<lambda>r. result_id r = ident) table = None"
  shows "status (get_result to_dict fault table ident) = 500"
  using assms by (cases fault) (simp_all add: get_result_def get_or_404_def json_error_def status_def)

text \<open>
  Claim C2 does not hold of the code: for an id that no stored row has, \<open>get_or_404\<close>
  raises \<open>NotFound\<close> inside the view's \<open>try\<close>, the clause \<open>except Exception\<close> catches
  it, and \<open>GET /api/result/<id>\<close> answers 500, not 404.
\<close>

theorem missing_result_500:
  "get_result to_dict None three_rows 7 =
     (JObj [(''error'', JStr (exn_str NotFound))], 500)
   \<and> status (get_result to_dict None three_rows 7) \<noteq> 404"
  by (simp add: get_result_def get_or_404_def json_error_def status_def three_rows_def row_def)

lemma no_random: "lookup_global module_globals ''random'' = Inl (NameError ''name random is not defined'')"
  by (simp add: lookup_global_def module_globals_def)

text \<open>
  Claim C9 does not hold of the code: the module never imports \<open>random\<close>, so the
  tie-break of the first rule, the healthy-class choice and the final fallback each raise
  \<open>NameError\<close> instead of returning a class index.
\<close>

theorem classifier_raises_NameError:
  "simple_disease_classifier module_globals r brown_and_rough = Inl (NameError ''name random is not defined'')
   \<and> simple_disease_classifier module_globals r mostly_green = Inl (NameError ''name random is not defined'')
   \<and> simple_disease_classifier module_globals r bland = Inl (NameError ''name random is not defined'')"
  by (simp add: simple_disease_classifier_def no_random brown_and_rough_def mostly_green_def bland_def
      np_getitem_def np_mean_less_def)

lemma classifier_returns_only_fixed_labels:
  assumes "simple_disease_classifier module_globals r features = Inr k"
  shows "k = 30 \<or> k = 6 \<or> k = 31"
  using assms
  by (simp add: simple_disease_classifier_def no_random Let_def
      split: sum.splits bool.splits if_splits)

lemma classifier_with_random_bound:
  "simple_disease_classifier (''random'' # module_globals) r brown_and_rough
     = Inr (if random_value r > 0.5 then 1 else 0)"
  by (simp add: simple_disease_classifier_def lookup_global_def brown_and_rough_def np_getitem_def)

section \<open>Properties of the disease detector\<close>

lemma sum_exp_pos:
  assumes "logits \<noteq> []"
  shows "0 < sum_list (map exp (logits :: real list))"
proof -
  from assms obtain x xs where "logits = x # xs" by (cases logits) auto
  moreover have "0 \<le> sum_list (map exp xs)" by (rule sum_list_nonneg) auto
  moreover have "0 < exp x" by simp
  ultimately show ?thesis by (simp add: add_pos_nonneg)
qed

lemma exp_le_sum:
  assumes "x \<in> set logits"
  shows "exp x \<le> sum_list (map exp (logits :: real list))"
  using assms
proof (induction logits)
  case Nil
  then show ?case by simp
next
  case (Cons y ys)
  have nn: "0 \<le> sum_list (map exp ys)" by (rule sum_list_nonneg) auto
  show ?case
  proof (cases "x = y")
    case True
    with nn show ?thesis by simp
  next
    case False
    with Cons have "exp x \<le> sum_list (map exp ys)" by simp
    then show ?thesis by (simp add: add_increasing)
  qed
qed

lemma softmax_bounds:
  assumes "p \<in> set (softmax logits)"
  shows "0 < p \<and> p \<le> 1"
proof -
  from assms obtain x where x: "x \<in> set logits" and p: "p = exp x / sum_list (map exp logits)"
    by (auto simp: softmax_def)
  from x have "logits \<noteq> []" by auto
  then have pos: "0 < sum_list (map exp logits)" by (rule sum_exp_pos)
  with p have "0 < p" by simp
  moreover from exp_le_sum [OF x] pos p have "p \<le> 1" by simp
  ultimately show ?thesis ..
qed

lemma first_max_less:
  "xs \<noteq> [] \<Longrightarrow> first_max xs < length xs"
proof (induction xs)
  case Nil
  then show ?case by simp
next
  case (Cons x xs)
  show ?case
  proof (cases "list_all (\<lambda>y. y \<le> x) xs")
    case True
    then show ?thesis by simp
  next
    case False
    then have "xs \<noteq> []" by auto
    with Cons.IH False show ?thesis by simp
  qed
qed

lemma first_max_greatest:
  "y \<in> set xs \<Longrightarrow> y \<le> xs ! first_max xs"
proof (induction xs arbitrary: y)
  case Nil
  then show ?case by simp
next
  case (Cons x xs)
  show ?case
  proof (cases "list_all (\<lambda>y. y \<le> x) xs")
    case True
    with Cons.prems show ?thesis by (auto simp: list_all_iff)
  next
    case False
    then obtain z where z: "z \<in> set xs" "x < z" by (auto simp: list_all_iff not_le)
    from z(1) have "z \<le> xs ! first_max xs" by (rule Cons.IH)
    with z(2) have "x \<le> xs ! first_max xs" by simp
    with Cons.prems Cons.IH False show ?thesis by auto
  qed
qed

lemma first_max_first:
  "j < first_max xs \<Longrightarrow> xs ! j < xs ! first_max xs"
proof (induction xs arbitrary: j)
  case Nil
  then show ?case by simp
next
  case (Cons x xs)
  show ?case
  proof (cases "list_all (\<lambda>y. y \<le> x) xs")
    case True
    with Cons.prems show ?thesis by simp
  next
    case False
    then obtain z where z: "z \<in> set xs" "x < z" by (auto simp: list_all_iff not_le)
    from z(1) have "z \<le> xs ! first_max xs" by (rule first_max_greatest)
    with z(2) have x: "x < xs ! first_max xs" by simp
    show ?thesis
    proof (cases j)
      case 0
      with False x show ?thesis by simp
    next
      case (Suc i)
      with Cons.prems False have "i < first_max xs" by simp
      then have "xs ! i < xs ! first_max xs" by (rule Cons.IH)
      with Suc False show ?thesis by simp
    qed
  qed
qed

lemma first_max_map:
  assumes "\<And>a b. (f a \<le> f b) = (a \<le> b)"
  shows "first_max (map f xs) = first_max xs"
  by (induction xs) (simp_all add: list_all_iff assms)

lemma first_max_softmax: "first_max (softmax logits) = first_max logits"
proof (cases "logits = []")
  case True
  then show ?thesis by (simp add: softmax_def)
next
  case False
  then have "0 < sum_list (map exp logits)" by (rule sum_exp_pos)
  then have "\<And>a b. (exp a / sum_list (map exp logits) \<le> exp b / sum_list (map exp logits)) = (a \<le> b)"
    by (simp add: divide_le_cancel)
  then show ?thesis unfolding softmax_def by (rule first_max_map)
qed

lemma length_softmax: "length (softmax logits) = length logits"
  by (simp add: softmax_def)

lemma softmax_Nil: "(softmax logits = []) = (logits = [])"
  by (simp add: softmax_def)

lemma detect_disease_returns:
  assumes "load_model_result env = None"
    and "preprocess_result env path = None"
    and "model_output env path = Inr logits"
    and "logits \<noteq> []"
    and "config_result env = Inr config"
  shows "detect_disease env path =
    Inr (class_name (config_id2label config) (first_max (softmax logits)),
         softmax logits ! first_max (softmax logits))"
  using assms by (simp add: detect_disease_def torch_argmax_def Let_def softmax_Nil)

lemma detect_disease_Inr:
  assumes "detect_disease env path = Inr (name, conf)"
  shows "\<exists>logits config. load_model_result env = None \<and> preprocess_result env path = None
     \<and> model_output env path = Inr logits \<and> logits \<noteq> [] \<and> config_result env = Inr config
     \<and> name = class_name (config_id2label config) (first_max (softmax logits))
     \<and> conf = softmax logits ! first_max (softmax logits)"
  using assms
  by (auto simp: detect_disease_def torch_argmax_def softmax_Nil Let_def
      split: option.splits sum.splits if_splits)

lemma softmax_nth:
  assumes "k < length logits"
  shows "softmax logits ! k = exp (logits ! k) / sum_list (map exp logits)"
  using assms by (simp add: softmax_def)

text \<open>
  Claim C7, as amended. When the model loads, the image is preprocessed, the model gives
  a non-empty row of logits and \<open>config.json\<close> is read, \<open>detect_disease\<close> returns the
  first index \<open>k\<close> of the greatest softmax score (which is the first index of the
  greatest logit) as the class, named by the \<open>id2label\<close> entry for \<open>str(k)\<close> or, when
  there is no such entry, by \<open>Class_k\<close>, together with the softmax score of \<open>k\<close>, the
  greatest of all.
\<close>

theorem detect_disease_softmax_argmax:
  assumes "load_model_result env = None"
    and "preprocess_result env path = None"
    and "model_output env path = Inr logits"
    and "logits \<noteq> []"
    and "config_result env = Inr config"
  shows "\<exists>k. k = first_max (softmax logits)
      \<and> k < length logits
      \<and> (\<forall>j. j < length logits \<longrightarrow> softmax logits ! j \<le> softmax logits ! k)
      \<and> (\<forall>j. j < length logits \<longrightarrow> logits ! j \<le> logits ! k)
      \<and> detect_disease env path =
          Inr (case map_of (config_id2label config) (str_nat k) of
                 Some name \<Rightarrow> name
               | None \<Rightarrow> ''Class_'' @ str_nat k,
               exp (logits ! k) / sum_list (map exp logits))"
proof -
  let ?k = "first_max (softmax logits)"
  have k: "?k = first_max logits" by (rule first_max_softmax)
  from assms(4) have less: "?k < length logits" by (simp add: k first_max_less)
  have "softmax logits ! j \<le> softmax logits ! ?k" if "j < length logits" for j
  proof -
    from that have "softmax logits ! j \<in> set (softmax logits)" by (simp add: length_softmax)
    then show ?thesis by (rule first_max_greatest)
  qed
  moreover have "logits ! j \<le> logits ! ?k" if "j < length logits" for j
    unfolding k using that by (intro first_max_greatest nth_mem)
  moreover have "detect_disease env path =
      Inr (case map_of (config_id2label config) (str_nat ?k) of
             Some name \<Rightarrow> name
           | None \<Rightarrow> ''Class_'' @ str_nat ?k,
           exp (logits ! ?k) / sum_list (map exp logits))"
    using assms less by (simp add: detect_disease_returns class_name_def softmax_nth)
  ultimately show ?thesis using less by blast
qed

lemma detect_labelled:
  "detect_disease labelled_detector path = Inr (''Apple_Black_rot'', exp 1 / (1 + exp 1))"
proof -
  have "first_max (softmax [0, 1]) = 1"
    by (simp add: first_max_softmax)
  then show ?thesis
    by (simp add: detect_disease_def labelled_detector_def torch_argmax_def softmax_Nil Let_def
        class_name_def config_id2label_def str_nat.simps softmax_def)
qed

lemma detect_unlabelled:
  "detect_disease unlabelled_detector path = Inr (''Class_1'', exp 1 / (1 + exp 1))"
proof -
  have "first_max (softmax [0, 1]) = 1"
    by (simp add: first_max_softmax)
  then show ?thesis
    by (simp add: detect_disease_def unlabelled_detector_def torch_argmax_def softmax_Nil Let_def
        class_name_def config_id2label_def str_nat.simps softmax_def)
qed

theorem detect_disease_softmax_argmax_witness:
  "detect_disease labelled_detector leaf_path = Inr (''Apple_Black_rot'', exp 1 / (1 + exp 1))
   \<and> first_max (softmax [0, 1]) = 1"
proof -
  have one: "first_max (softmax [0, 1]) = 1"
    by (simp add: first_max_softmax)
  have "load_model_result labelled_detector = None"
    and "preprocess_result labelled_detector leaf_path = None"
    and "model_output labelled_detector leaf_path = Inr [0, 1]"
    and "[0, 1 :: real] \<noteq> []"
    and "config_result labelled_detector = Inr (Some [(''0'', ''Apple_Apple_scab''), (''1'', ''Apple_Black_rot'')])"
    by (simp_all add: labelled_detector_def)
  from detect_disease_softmax_argmax [OF this] one show ?thesis
    by (simp add: config_id2label_def str_nat.simps)
qed

text \<open>
  Claim C7 as stated fails when \<open>config.json\<close> has no \<open>id2label\<close> entry: the name
  returned is \<open>Class_1\<close>, which no label-index mapping gave.
\<close>

theorem unlabelled_class_gets_placeholder:
  "detect_disease unlabelled_detector leaf_path = Inr (''Class_1'', exp 1 / (1 + exp 1))
   \<and> config_result unlabelled_detector = Inr None
   \<and> config_id2label None = []"
  by (simp add: detect_unlabelled) (simp add: unlabelled_detector_def config_id2label_def)

section \<open>Properties of the upload endpoint\<close>

lemma class_name_cases:
  "class_name id2label k \<in> snd ` set id2label \<or> class_name id2label k = ''Class_'' @ str_nat k"
proof (cases "map_of id2label (str_nat k)")
  case None
  then show ?thesis by (simp add: class_name_def)
next
  case (Some name)
  then have "(str_nat k, name) \<in> set id2label" by (rule map_of_SomeD)
  then have "name \<in> snd ` set id2label" by force
  with Some show ?thesis by (simp add: class_name_def)
qed



lemma request_files_Inr:
  assumes "request_files rq = Inr parts"
  shows "parts = form_files rq \<and> content_length rq \<le> MAX_CONTENT_LENGTH"
  using assms by (simp add: request_files_def split: if_splits)

lemma upload_after_save:
  assumes "request_files rq = Inr parts"
    and "parts ''file'' = Some f"
    and "filename f \<noteq> []"
    and "allowed_file (filename f)"
    and "save_result env = Saved"
  shows "upload_image env rq st =
    (case detect_disease (detector env) (upload_path env f) of
       Inl e \<Rightarrow> upload_failed env e (upload_path env f)
                 (st\<lparr>files := (files st)(upload_path env f \<mapsto> content f)\<rparr>)
     | Inr out \<Rightarrow>
         (case commit_result env of
            Inl e \<Rightarrow> upload_failed env e (upload_path env f)
                      (st\<lparr>files := (files st)(upload_path env f \<mapsto> content f)\<rparr>)
          | Inr new_id \<Rightarrow>
              (case answer_result env of
                 Some e \<Rightarrow> upload_failed env e (upload_path env f)
                   (st\<lparr>files := (files st)(upload_path env f \<mapsto> content f),
                      rows := rows st @ [\<lparr>result_id = new_id, image_path = upload_path env f,
                                          prediction = fst out, confidence = snd out,
                                          timestamp = now env\<rparr>]\<rparr>)
               | None \<Rightarrow>
                  (Inr (JObj [(''id'', JInt (int new_id)),
                          (''image_path'', JStr (upload_path env f)),
                          (''prediction'', JStr (fst out)),
                          (''confidence'', JFloat (snd out)),
                          (''timestamp'', JStr (isoformat env (now env)))], 200),
                   st\<lparr>files := (files st)(upload_path env f \<mapsto> content f),
                      rows := rows st @ [\<lparr>result_id = new_id, image_path = upload_path env f,
                                          prediction = fst out, confidence = snd out,
                                          timestamp = now env\<rparr>]\<rparr>))))"
  using assms
  by (simp add: upload_image_def Let_def split: sum.splits prod.splits option.splits)



lemma upload_no_name:
  assumes "request_files rq = Inr parts" and "parts ''file'' = Some f" and "filename f = []"
  shows "upload_image env rq st = (Inr (json_error ''No selected file'' 400), st)"
  using assms by (simp add: upload_image_def)

lemma upload_not_allowed:
  assumes "request_files rq = Inr parts" and "parts ''file'' = Some f"
    and "filename f \<noteq> []" and "\<not> allowed_file (filename f)"
  shows "upload_image env rq st = (Inr (json_error ''File type not allowed'' 400), st)"
  using assms by (simp add: upload_image_def)

lemma upload_failed_500:
  assumes "upload_failed env e path st = (Inr resp, st')"
  shows "status resp = 500"
  using assms
  by (auto simp: upload_failed_def json_error_def status_def split: if_splits option.splits)

lemma upload_200:
  assumes "upload_image env rq st = (Inr resp, st')" and "status resp = 200"
  shows "\<exists>f pred conf new_id.
      detect_disease (detector env) (upload_path env f) = Inr (pred, conf)
    \<and> commit_result env = Inr new_id
    \<and> rows st' = rows st @ [\<lparr>result_id = new_id, image_path = upload_path env f,
                               prediction = pred, confidence = conf, timestamp = now env\<rparr>]"
proof (cases "request_files rq")
  case (Inl e)
  with assms(1) show ?thesis by (simp add: upload_image_def)
next
  case (Inr parts)
  show ?thesis
  proof (cases "parts ''file''")
    case None
    with Inr assms show ?thesis by (auto simp: upload_image_def json_error_def status_def)
  next
    case (Some f)
    show ?thesis
    proof (cases "filename f = [] \<or> \<not> allowed_file (filename f)")
      case True
      then have "upload_image env rq st = (Inr (json_error ''No selected file'' 400), st)
          \<or> upload_image env rq st = (Inr (json_error ''File type not allowed'' 400), st)"
        using upload_no_name [OF Inr Some] upload_not_allowed [OF Inr Some] by blast
      with assms show ?thesis by (auto simp: json_error_def status_def)
    next
      case ok: False
      then have n: "filename f \<noteq> []" and a: "allowed_file (filename f)" by blast+
      show ?thesis
      proof (cases "save_result env")
        case (SaveFailed e partial)
        with Inr Some n a assms(1) have
          "upload_failed env e (upload_path env f)
             (case partial of None \<Rightarrow> st
              | Some bytes \<Rightarrow> st\<lparr>files := (files st)(upload_path env f \<mapsto> bytes)\<rparr>)
           = (Inr resp, st')"
          by (simp add: upload_image_def Let_def)
        then have "status resp = 500" by (rule upload_failed_500)
        with assms(2) show ?thesis by simp
      next
        case Saved
        note eq = upload_after_save [OF Inr Some n a Saved, of st]
        show ?thesis
        proof (cases "detect_disease (detector env) (upload_path env f)")
          case (Inl e)
          from assms(1) have "upload_failed env e (upload_path env f)
                 (st\<lparr>files := (files st)(upload_path env f \<mapsto> content f)\<rparr>) = (Inr resp, st')"
            unfolding eq Inl by simp
          then have "status resp = 500" by (rule upload_failed_500)
          with assms(2) show ?thesis by simp
        next
          case det: (Inr out)
          show ?thesis
          proof (cases "commit_result env")
            case (Inl e)
            from assms(1) have "upload_failed env e (upload_path env f)
                 (st\<lparr>files := (files st)(upload_path env f \<mapsto> content f)\<rparr>) = (Inr resp, st')"
              unfolding eq det Inl by simp
            then have "status resp = 500" by (rule upload_failed_500)
            with assms(2) show ?thesis by simp
          next
            case com: (Inr new_id)
            show ?thesis
            proof (cases "answer_result env")
              case (Some e)
              from assms(1) have "upload_failed env e (upload_path env f)
                   (st\<lparr>files := (files st)(upload_path env f \<mapsto> content f),
                      rows := rows st @ [\<lparr>result_id = new_id, image_path = upload_path env f,
                                          prediction = fst out, confidence = snd out,
                                          timestamp = now env\<rparr>]\<rparr>) = (Inr resp, st')"
                unfolding eq det com Some by simp
              then have "status resp = 500" by (rule upload_failed_500)
              with assms(2) show ?thesis by simp
            next
              case None
              from assms(1) have "st' = st\<lparr>files := (files st)(upload_path env f \<mapsto> content f),
                      rows := rows st @ [\<lparr>result_id = new_id, image_path = upload_path env f,
                                          prediction = fst out, confidence = snd out,
                                          timestamp = now env\<rparr>]\<rparr>"
                unfolding eq det com None by simp
              then have "rows st' = rows st @
                  [\<lparr>result_id = new_id, image_path = upload_path env f,
                    prediction = fst out, confidence = snd out, timestamp = now env\<rparr>]"
                by simp
              moreover from det have "detect_disease (detector env) (upload_path env f)
                  = Inr (fst out, snd out)" by simp
              ultimately show ?thesis using com by blast
            qed
          qed
        qed
      qed
    qed
  qed
qed

text \<open>
  Claim C5, as amended. A successful upload (status 200) adds exactly one row; its
  confidence is a softmax score of the model's logits and lies in \<open>[0, 1]\<close>, and its
  prediction is a value of the \<open>id2label\<close> mapping of \<open>config.json\<close> or the
  placeholder \<open>Class_k\<close> for an index \<open>k\<close> of the logits.
\<close>

theorem stored_result_invariant:
  assumes "upload_image env rq st = (Inr resp, st')" and "status resp = 200"
  shows "\<exists>r logits config k.
      rows st' = rows st @ [r]
    \<and> model_output (detector env) (image_path r) = Inr logits
    \<and> config_result (detector env) = Inr config
    \<and> k < length logits
    \<and> confidence r = exp (logits ! k) / sum_list (map exp logits)
    \<and> 0 \<le> confidence r \<and> confidence r \<le> 1
    \<and> (prediction r \<in> snd ` set (config_id2label config)
        \<or> prediction r = ''Class_'' @ str_nat k)"
proof -
  from upload_200 [OF assms] obtain f pred conf new_id where
    det: "detect_disease (detector env) (upload_path env f) = Inr (pred, conf)"
    and rows: "rows st' = rows st @ [\<lparr>result_id = new_id, image_path = upload_path env f,
                               prediction = pred, confidence = conf, timestamp = now env\<rparr>]"
    by blast
  let ?r = "\<lparr>result_id = new_id, image_path = upload_path env f,
             prediction = pred, confidence = conf, timestamp = now env\<rparr>"
  from detect_disease_Inr [OF det] obtain logits config where
    out: "model_output (detector env) (upload_path env f) = Inr logits"
    and ne: "logits \<noteq> []"
    and cfg: "config_result (detector env) = Inr config"
    and pred: "pred = class_name (config_id2label config) (first_max (softmax logits))"
    and conf: "conf = softmax logits ! first_max (softmax logits)"
    by blast
  let ?k = "first_max (softmax logits)"
  from ne have k: "?k < length logits" by (simp add: first_max_softmax first_max_less)
  then have "softmax logits ! ?k \<in> set (softmax logits)" by (simp add: length_softmax)
  then have "0 < conf \<and> conf \<le> 1" unfolding conf by (rule softmax_bounds)
  moreover from k conf have "conf = exp (logits ! ?k) / sum_list (map exp logits)"
    by (simp add: softmax_nth)
  moreover have "pred \<in> snd ` set (config_id2label config) \<or> pred = ''Class_'' @ str_nat ?k"
    unfolding pred by (rule class_name_cases)
  ultimately have "rows st' = rows st @ [?r]
    \<and> model_output (detector env) (image_path ?r) = Inr logits
    \<and> config_result (detector env) = Inr config
    \<and> ?k < length logits
    \<and> confidence ?r = exp (logits ! ?k) / sum_list (map exp logits)
    \<and> 0 \<le> confidence ?r \<and> confidence ?r \<le> 1
    \<and> (prediction ?r \<in> snd ` set (config_id2label config)
        \<or> prediction ?r = ''Class_'' @ str_nat ?k)"
    using rows out cfg k by simp
  then show ?thesis by blast
qed

lemma allowed_leaf: "allowed_file ''leaf.PNG''"
  by (simp add: allowed_file_def rsplit_dot_def lower_def lower_char_def ALLOWED_EXTENSIONS_def)

lemma leaf_upload_path: "upload_path (upload_env_of d c) leaf_file = leaf_path"
  by (simp add: upload_path_def upload_env_of_def leaf_file_def leaf_path_def UPLOAD_FOLDER_def)

lemma leaf_request_files: "request_files leaf_request = Inr [''file'' \<mapsto> leaf_file]"
  by (simp add: request_files_def leaf_request_def MAX_CONTENT_LENGTH_def)

lemma leaf_saved:
  "upload_image (upload_env_of d c) leaf_request st =
    (case detect_disease d leaf_path of
       Inl e \<Rightarrow> upload_failed (upload_env_of d c) e leaf_path
                 (st\<lparr>files := (files st)(leaf_path \<mapsto> ''image bytes'')\<rparr>)
     | Inr out \<Rightarrow>
         (case c of
            Inl e \<Rightarrow> upload_failed (upload_env_of d c) e leaf_path
                      (st\<lparr>files := (files st)(leaf_path \<mapsto> ''image bytes'')\<rparr>)
          | Inr new_id \<Rightarrow>
              (Inr (JObj [(''id'', JInt (int new_id)),
                      (''image_path'', JStr leaf_path),
                      (''prediction'', JStr (fst out)),
                      (''confidence'', JFloat (snd out)),
                      (''timestamp'', JStr ''2023-11-14T22:13:20'')], 200),
               st\<lparr>files := (files st)(leaf_path \<mapsto> ''image bytes''),
                  rows := rows st @ [\<lparr>result_id = new_id, image_path = leaf_path,
                                      prediction = fst out, confidence = snd out,
                                      timestamp = 1700000000000000\<rparr>]\<rparr>)))"
proof -
  have f: "[''file'' \<mapsto> leaf_file] ''file'' = Some leaf_file" by simp
  have n: "filename leaf_file \<noteq> []" by (simp add: leaf_file_def)
  have a: "allowed_file (filename leaf_file)" by (simp add: leaf_file_def allowed_leaf)
  have s: "save_result (upload_env_of d c) = Saved" by (simp add: upload_env_of_def)
  have p: "upload_path (upload_env_of d c) leaf_file = leaf_path" by (rule leaf_upload_path)
  have e: "detector (upload_env_of d c) = d" "commit_result (upload_env_of d c) = c"
    "answer_result (upload_env_of d c) = None" "now (upload_env_of d c) = 1700000000000000"
    "isoformat (upload_env_of d c) = (\<lambda>t. ''2023-11-14T22:13:20'')"
    "content leaf_file = ''image bytes''"
    by (simp_all add: upload_env_of_def leaf_file_def)
  show ?thesis
    unfolding upload_after_save [OF leaf_request_files f n a s] p e
    by (simp split: sum.splits)
qed

lemma upload_labelled:
  "upload_image (upload_env_of labelled_detector (Inr 4)) leaf_request empty_store =
     (Inr (JObj [(''id'', JInt 4), (''image_path'', JStr leaf_path),
             (''prediction'', JStr ''Apple_Black_rot''),
             (''confidence'', JFloat (exp 1 / (1 + exp 1))),
             (''timestamp'', JStr ''2023-11-14T22:13:20'')], 200),
      \<lparr>files = [leaf_path \<mapsto> ''image bytes''],
       rows = [\<lparr>result_id = 4, image_path = leaf_path, prediction = ''Apple_Black_rot'',
                confidence = exp 1 / (1 + exp 1), timestamp = 1700000000000000\<rparr>]\<rparr>)"
  unfolding leaf_saved detect_labelled by (simp add: empty_store_def)

theorem stored_result_invariant_witness:
  "\<exists>r logits config k.
      rows \<lparr>files = [leaf_path \<mapsto> ''image bytes''],
            rows = [\<lparr>result_id = 4, image_path = leaf_path, prediction = ''Apple_Black_rot'',
                     confidence = exp 1 / (1 + exp 1), timestamp = 1700000000000000\<rparr>]\<rparr>
        = rows empty_store @ [r]
    \<and> model_output (detector (upload_env_of labelled_detector (Inr 4))) (image_path r) = Inr logits
    \<and> config_result (detector (upload_env_of labelled_detector (Inr 4))) = Inr config
    \<and> k < length logits
    \<and> confidence r = exp (logits ! k) / sum_list (map exp logits)
    \<and> 0 \<le> confidence r \<and> confidence r \<le> 1
    \<and> (prediction r \<in> snd ` set (config_id2label config)
        \<or> prediction r = ''Class_'' @ str_nat k)"
proof -
  have "status (JObj [(''id'', JInt 4), (''image_path'', JStr leaf_path),
             (''prediction'', JStr ''Apple_Black_rot''),
             (''confidence'', JFloat (exp 1 / (1 + exp 1))),
             (''timestamp'', JStr ''2023-11-14T22:13:20'')], 200) = 200"
    by (simp add: status_def)
  with upload_labelled show ?thesis
    by (rule stored_result_invariant)
qed

lemma upload_unlabelled:
  "upload_image (upload_env_of unlabelled_detector (Inr 4)) leaf_request empty_store =
     (Inr (JObj [(''id'', JInt 4), (''image_path'', JStr leaf_path),
             (''prediction'', JStr ''Class_1''),
             (''confidence'', JFloat (exp 1 / (1 + exp 1))),
             (''timestamp'', JStr ''2023-11-14T22:13:20'')], 200),
      \<lparr>files = [leaf_path \<mapsto> ''image bytes''],
       rows = [\<lparr>result_id = 4, image_path = leaf_path, prediction = ''Class_1'',
                confidence = exp 1 / (1 + exp 1), timestamp = 1700000000000000\<rparr>]\<rparr>)"
  unfolding leaf_saved detect_unlabelled by (simp add: empty_store_def)

text \<open>
  Claim C5 as stated fails when \<open>config.json\<close> has no \<open>id2label\<close> entry: the upload
  succeeds and stores the prediction \<open>Class_1\<close>, which is not a class name.
\<close>

theorem stored_prediction_outside_vocabulary:
  "client_status (fst (upload_image (upload_env_of unlabelled_detector (Inr 4)) leaf_request empty_store)) = 200
   \<and> map prediction (rows (snd (upload_image (upload_env_of unlabelled_detector (Inr 4))
        leaf_request empty_store))) = [''Class_1'']
   \<and> ''Class_1'' \<notin> set CLASSES
   \<and> config_result (detector (upload_env_of unlabelled_detector (Inr 4))) = Inr None"
  unfolding upload_unlabelled
  by (simp add: client_status_def status_def CLASSES_def upload_env_of_def unlabelled_detector_def)

lemma upload_failed_saved:
  "upload_failed env e path (st\<lparr>files := (files st)(path \<mapsto> bytes)\<rparr>) =
     (case remove_result env of
        None \<Rightarrow> (Inr (JObj [(''error'', JStr (exn_str e))], 500),
                  st\<lparr>files := (files st)(path := None)\<rparr>)
      | Some e' \<Rightarrow> (Inl e', st\<lparr>files := (files st)(path \<mapsto> bytes)\<rparr>))"
  by (simp add: upload_failed_def json_error_def split: option.splits)

lemma upload_failed_committed:
  "upload_failed env e path (st\<lparr>files := (files st)(path \<mapsto> bytes), rows := rs\<rparr>) =
     (case remove_result env of
        None \<Rightarrow> (Inr (JObj [(''error'', JStr (exn_str e))], 500),
                  st\<lparr>files := (files st)(path := None), rows := rs\<rparr>)
      | Some e' \<Rightarrow> (Inl e', st\<lparr>files := (files st)(path \<mapsto> bytes), rows := rs\<rparr>))"
  by (simp add: upload_failed_def json_error_def split: option.splits)

text \<open>
  Claim C1, as amended. For an upload within the size limit that passes the presence,
  filename and extension checks and whose file is saved:
  when detection raises, or detection returns and the commit raises, and \<open>os.remove\<close>
  succeeds, \<open>POST /api/upload\<close> answers 500 with \<open>str(e)\<close> in the \<open>error\<close> field,
  the saved file is gone from the upload directory, every other file is as before and
  the table of results is unchanged;
  when detection and the commit succeed and building the answer raises, and \<open>os.remove\<close>
  succeeds, the answer is 500 with \<open>str(e)\<close> and the saved file is gone, but the
  committed row stays in the table;
  when \<open>os.remove\<close> raises after any of these failures, its exception leaves the view
  and the saved file stays in the upload directory.
\<close>

theorem failed_processing_cleans_up:
  assumes "request_files rq = Inr parts"
    and "parts ''file'' = Some f"
    and "filename f \<noteq> []"
    and "allowed_file (filename f)"
    and "save_result env = Saved"
  shows "((detect_disease (detector env) (upload_path env f) = Inl e
           \<or> (\<exists>out. detect_disease (detector env) (upload_path env f) = Inr out
                    \<and> commit_result env = Inl e))
          \<and> remove_result env = None \<longrightarrow>
            fst (upload_image env rq st) = Inr (JObj [(''error'', JStr (exn_str e))], 500)
          \<and> files (snd (upload_image env rq st)) (upload_path env f) = None
          \<and> (\<forall>p. p \<noteq> upload_path env f \<longrightarrow>
                files (snd (upload_image env rq st)) p = files st p)
          \<and> rows (snd (upload_image env rq st)) = rows st)
       \<and> ((\<exists>out. detect_disease (detector env) (upload_path env f) = Inr out)
          \<and> commit_result env = Inr new_id \<and> answer_result env = Some e
          \<and> remove_result env = None \<longrightarrow>
            fst (upload_image env rq st) = Inr (JObj [(''error'', JStr (exn_str e))], 500)
          \<and> files (snd (upload_image env rq st)) (upload_path env f) = None
          \<and> (\<exists>r. rows (snd (upload_image env rq st)) = rows st @ [r]
                 \<and> result_id r = new_id \<and> image_path r = upload_path env f))
       \<and> ((detect_disease (detector env) (upload_path env f) = Inl e
           \<or> (\<exists>out. detect_disease (detector env) (upload_path env f) = Inr out
                    \<and> (commit_result env = Inl e
                        \<or> (\<exists>k. commit_result env = Inr k) \<and> answer_result env = Some e)))
          \<and> remove_result env = Some e' \<longrightarrow>
            fst (upload_image env rq st) = Inl e'
          \<and> files (snd (upload_image env rq st)) (upload_path env f) = Some (content f))"
proof -
  note eq = upload_after_save [OF assms, of st]
  have A: "fst (upload_image env rq st) = Inr (JObj [(''error'', JStr (exn_str e))], 500)
          \<and> files (snd (upload_image env rq st)) (upload_path env f) = None
          \<and> (\<forall>p. p \<noteq> upload_path env f \<longrightarrow>
                files (snd (upload_image env rq st)) p = files st p)
          \<and> rows (snd (upload_image env rq st)) = rows st"
    if "detect_disease (detector env) (upload_path env f) = Inl e
           \<or> (\<exists>out. detect_disease (detector env) (upload_path env f) = Inr out
                    \<and> commit_result env = Inl e)"
      and r: "remove_result env = None"
  proof -
    from that(1) have "upload_image env rq st =
        upload_failed env e (upload_path env f)
          (st\<lparr>files := (files st)(upload_path env f \<mapsto> content f)\<rparr>)"
      unfolding eq by auto
    then show ?thesis by (simp add: upload_failed_saved r)
  qed
  have B: "fst (upload_image env rq st) = Inr (JObj [(''error'', JStr (exn_str e))], 500)
          \<and> files (snd (upload_image env rq st)) (upload_path env f) = None
          \<and> (\<exists>r. rows (snd (upload_image env rq st)) = rows st @ [r]
                 \<and> result_id r = new_id \<and> image_path r = upload_path env f)"
    if "\<exists>out. detect_disease (detector env) (upload_path env f) = Inr out"
      and c: "commit_result env = Inr new_id" and a: "answer_result env = Some e"
      and r: "remove_result env = None"
  proof -
    from that(1) obtain out where d: "detect_disease (detector env) (upload_path env f) = Inr out" ..
    have "upload_image env rq st =
        upload_failed env e (upload_path env f)
          (st\<lparr>files := (files st)(upload_path env f \<mapsto> content f),
             rows := rows st @ [\<lparr>result_id = new_id, image_path = upload_path env f,
                                 prediction = fst out, confidence = snd out,
                                 timestamp = now env\<rparr>]\<rparr>)"
      unfolding eq d c a by simp
    then show ?thesis by (simp add: upload_failed_committed r)
  qed
  have C: "fst (upload_image env rq st) = Inl e'
          \<and> files (snd (upload_image env rq st)) (upload_path env f) = Some (content f)"
    if "detect_disease (detector env) (upload_path env f) = Inl e
           \<or> (\<exists>out. detect_disease (detector env) (upload_path env f) = Inr out
                    \<and> (commit_result env = Inl e
                        \<or> (\<exists>k. commit_result env = Inr k) \<and> answer_result env = Some e))"
      and r: "remove_result env = Some e'"
  proof -
    from that(1) consider
        (early) "upload_image env rq st =
          upload_failed env e (upload_path env f)
            (st\<lparr>files := (files st)(upload_path env f \<mapsto> content f)\<rparr>)"
      | (late) rs where "upload_image env rq st =
          upload_failed env e (upload_path env f)
            (st\<lparr>files := (files st)(upload_path env f \<mapsto> content f), rows := rs\<rparr>)"
      unfolding eq by auto
    then show ?thesis
    proof cases
      case early
      then show ?thesis by (simp add: upload_failed_saved r)
    next
      case late
      then show ?thesis by (simp add: upload_failed_committed r)
    qed
  qed
  from A B C show ?thesis by blast
qed

lemma detect_failing: "detect_disease failing_detector path = Inl (External ''model not found'')"
  by (simp add: detect_disease_def failing_detector_def)

lemma leaf_parts: "[''file'' \<mapsto> leaf_file] ''file'' = Some leaf_file"
  by simp

lemma leaf_named: "filename leaf_file \<noteq> []"
  by (simp add: leaf_file_def)

lemma leaf_allowed: "allowed_file (filename leaf_file)"
  by (simp add: leaf_file_def allowed_leaf)

lemma stuck_saved: "save_result stuck_file_env = Saved"
  by (simp add: stuck_file_env_def upload_env_of_def)

lemma lost_saved: "save_result lost_answer_env = Saved"
  by (simp add: lost_answer_env_def upload_env_of_def)

lemma stuck_upload_path: "upload_path stuck_file_env leaf_file = leaf_path"
  by (simp add: upload_path_def stuck_file_env_def upload_env_of_def leaf_file_def leaf_path_def
      UPLOAD_FOLDER_def)

lemma lost_upload_path: "upload_path lost_answer_env leaf_file = leaf_path"
  by (simp add: upload_path_def lost_answer_env_def upload_env_of_def leaf_file_def leaf_path_def
      UPLOAD_FOLDER_def)

lemma upload_stuck:
  "upload_image stuck_file_env leaf_request empty_store
     = (Inl (External ''permission denied''),
        \<lparr>files = [leaf_path \<mapsto> ''image bytes''], rows = []\<rparr>)"
proof -
  have det: "detect_disease (detector stuck_file_env) leaf_path = Inl (External ''model not found'')"
    by (simp add: stuck_file_env_def upload_env_of_def detect_failing)
  have rem: "remove_result stuck_file_env = Some (External ''permission denied'')"
    by (simp add: stuck_file_env_def)
  show ?thesis
    unfolding upload_after_save [OF leaf_request_files leaf_parts leaf_named leaf_allowed
        stuck_saved, of empty_store] stuck_upload_path det
    by (simp add: upload_failed_def json_error_def rem empty_store_def leaf_file_def)
qed

lemma upload_lost:
  "upload_image lost_answer_env leaf_request empty_store
     = (Inr (JObj [(''error'', JStr ''connection lost'')], 500),
        \<lparr>files = Map.empty,
          rows = [\<lparr>result_id = 4, image_path = leaf_path, prediction = ''Apple_Black_rot'',
                   confidence = exp 1 / (1 + exp 1), timestamp = 1700000000000000\<rparr>]\<rparr>)"
proof -
  have det: "detect_disease (detector lost_answer_env) leaf_path
               = Inr (''Apple_Black_rot'', exp 1 / (1 + exp 1))"
    by (simp add: lost_answer_env_def upload_env_of_def detect_labelled)
  have com: "commit_result lost_answer_env = Inr 4"
    and ans: "answer_result lost_answer_env = Some (External ''connection lost'')"
    and rem: "remove_result lost_answer_env = None"
    and now: "now lost_answer_env = 1700000000000000"
    by (simp_all add: lost_answer_env_def upload_env_of_def)
  show ?thesis
    unfolding upload_after_save [OF leaf_request_files leaf_parts leaf_named leaf_allowed
        lost_saved, of empty_store] lost_upload_path det com ans
    by (simp add: upload_failed_def json_error_def rem now empty_store_def leaf_file_def)
qed

theorem failed_processing_cleans_up_witness:
  "fst (upload_image (upload_env_of failing_detector (Inr 4)) leaf_request empty_store)
     = Inr (JObj [(''error'', JStr ''model not found'')], 500)
   \<and> files (snd (upload_image (upload_env_of failing_detector (Inr 4)) leaf_request empty_store))
       leaf_path = None
   \<and> rows (snd (upload_image (upload_env_of failing_detector (Inr 4)) leaf_request empty_store))
       = []
   \<and> fst (upload_image (upload_env_of labelled_detector (Inl (External ''database is locked'')))
       leaf_request empty_store)
     = Inr (JObj [(''error'', JStr ''database is locked'')], 500)
   \<and> files (snd (upload_image (upload_env_of labelled_detector (Inl (External ''database is locked'')))
       leaf_request empty_store)) leaf_path = None
   \<and> rows (snd (upload_image (upload_env_of labelled_detector (Inl (External ''database is locked'')))
       leaf_request empty_store)) = []
   \<and> fst (upload_image lost_answer_env leaf_request empty_store)
     = Inr (JObj [(''error'', JStr ''connection lost'')], 500)
   \<and> files (snd (upload_image lost_answer_env leaf_request empty_store)) leaf_path = None
   \<and> (\<exists>r. rows (snd (upload_image lost_answer_env leaf_request empty_store)) = [r]
          \<and> result_id r = 4 \<and> image_path r = leaf_path)
   \<and> fst (upload_image stuck_file_env leaf_request empty_store)
     = Inl (External ''permission denied'')
   \<and> files (snd (upload_image stuck_file_env leaf_request empty_store)) leaf_path
     = Some ''image bytes''"
proof -
  have saved: "save_result (upload_env_of d c) = Saved" for d c by (simp add: upload_env_of_def)
  have removed: "remove_result (upload_env_of d c) = None" for d c by (simp add: upload_env_of_def)
  have d1: "detect_disease (detector (upload_env_of failing_detector (Inr 4))) leaf_path
             = Inl (External ''model not found'')"
    by (simp add: upload_env_of_def detect_failing)
  have d2: "\<exists>out. detect_disease (detector (upload_env_of labelled_detector
                 (Inl (External ''database is locked'')))) leaf_path = Inr out
                \<and> commit_result (upload_env_of labelled_detector (Inl (External ''database is locked'')))
                    = Inl (External ''database is locked'')"
    by (simp add: upload_env_of_def detect_labelled)
  have d3: "\<exists>out. detect_disease (detector lost_answer_env) leaf_path = Inr out"
    and c3: "commit_result lost_answer_env = Inr 4"
    and a3: "answer_result lost_answer_env = Some (External ''connection lost'')"
    and r3: "remove_result lost_answer_env = None"
    by (simp_all add: lost_answer_env_def upload_env_of_def detect_labelled)
  have d4: "detect_disease (detector stuck_file_env) leaf_path = Inl (External ''model not found'')"
    and r4: "remove_result stuck_file_env = Some (External ''permission denied'')"
    by (simp_all add: stuck_file_env_def upload_env_of_def detect_failing)
  note w1 = failed_processing_cleans_up [of leaf_request "[''file'' \<mapsto> leaf_file]" leaf_file
      "upload_env_of failing_detector (Inr 4)" "External ''model not found''" empty_store,
      OF leaf_request_files leaf_parts leaf_named leaf_allowed saved, THEN conjunct1,
      unfolded leaf_upload_path]
  note w2 = failed_processing_cleans_up [of leaf_request "[''file'' \<mapsto> leaf_file]" leaf_file
      "upload_env_of labelled_detector (Inl (External ''database is locked''))"
      "External ''database is locked''" empty_store,
      OF leaf_request_files leaf_parts leaf_named leaf_allowed saved, THEN conjunct1,
      unfolded leaf_upload_path]
  note w3 = failed_processing_cleans_up [of leaf_request "[''file'' \<mapsto> leaf_file]" leaf_file
      lost_answer_env "External ''connection lost''" empty_store 4,
      OF leaf_request_files leaf_parts leaf_named leaf_allowed lost_saved,
      THEN conjunct2, THEN conjunct1, unfolded lost_upload_path]
  note w4 = failed_processing_cleans_up [of leaf_request "[''file'' \<mapsto> leaf_file]" leaf_file
      stuck_file_env "External ''model not found''" empty_store 4 "External ''permission denied''",
      OF leaf_request_files leaf_parts leaf_named leaf_allowed stuck_saved,
      THEN conjunct2, THEN conjunct2, unfolded stuck_upload_path]
  from w1 d1 removed have p1:
    "fst (upload_image (upload_env_of failing_detector (Inr 4)) leaf_request empty_store)
       = Inr (JObj [(''error'', JStr (exn_str (External ''model not found'')))], 500)
     \<and> files (snd (upload_image (upload_env_of failing_detector (Inr 4)) leaf_request empty_store))
         leaf_path = None
     \<and> rows (snd (upload_image (upload_env_of failing_detector (Inr 4)) leaf_request empty_store))
         = rows empty_store"
    by blast
  from w2 d2 removed have p2:
    "fst (upload_image (upload_env_of labelled_detector (Inl (External ''database is locked'')))
       leaf_request empty_store)
       = Inr (JObj [(''error'', JStr (exn_str (External ''database is locked'')))], 500)
     \<and> files (snd (upload_image (upload_env_of labelled_detector (Inl (External ''database is locked'')))
         leaf_request empty_store)) leaf_path = None
     \<and> rows (snd (upload_image (upload_env_of labelled_detector (Inl (External ''database is locked'')))
         leaf_request empty_store)) = rows empty_store"
    by blast
  from w3 d3 c3 a3 r3 have p3:
    "fst (upload_image lost_answer_env leaf_request empty_store)
       = Inr (JObj [(''error'', JStr (exn_str (External ''connection lost'')))], 500)
     \<and> files (snd (upload_image lost_answer_env leaf_request empty_store)) leaf_path = None
     \<and> (\<exists>r. rows (snd (upload_image lost_answer_env leaf_request empty_store))
               = rows empty_store @ [r]
            \<and> result_id r = 4 \<and> image_path r = leaf_path)"
    by blast
  from w4 d4 r4 have p4:
    "fst (upload_image stuck_file_env leaf_request empty_store)
       = Inl (External ''permission denied'')
     \<and> files (snd (upload_image stuck_file_env leaf_request empty_store)) leaf_path
       = Some (content leaf_file)"
    by blast
  from p1 p2 p3 p4 show ?thesis by (simp add: empty_store_def leaf_file_def)
qed

text \<open>
  Claim C1 as stated fails in two ways. When the detector raises and \<open>os.remove\<close>
  raises too, the view returns no error body and the saved file stays. When the answer
  cannot be built after the commit, the view answers 500 and removes the file, but the
  row is in the table and names the removed file.
\<close>

theorem cleanup_can_fail:
  "upload_image stuck_file_env leaf_request empty_store
     = (Inl (External ''permission denied''),
        \<lparr>files = [leaf_path \<mapsto> ''image bytes''], rows = []\<rparr>)
   \<and> upload_image lost_answer_env leaf_request empty_store
     = (Inr (JObj [(''error'', JStr ''connection lost'')], 500),
        \<lparr>files = Map.empty,
          rows = [\<lparr>result_id = 4, image_path = leaf_path, prediction = ''Apple_Black_rot'',
                   confidence = exp 1 / (1 + exp 1), timestamp = 1700000000000000\<rparr>]\<rparr>)"
  using upload_stuck upload_lost by (rule conjI)












end
